theory Spec2Isabelle
  imports Complex_Main
begin

section \<open>Numbers\<close>

text \<open>
  The source computes with JavaScript numbers (IEEE doubles). The model keeps the
  special values the code tests for or can produce, \<open>NaN\<close> and the two infinities,
  and takes every other number as a real. A finite result of an operation that lies
  beyond the range of the doubles becomes an infinity, as it does in the code; the
  rounding of a result within the range and the sign of zero are not modelled (a zero
  divisor counts as \<open>+0\<close>).
\<close>

datatype number = NaN | NInf | Fin real | PInf

text \<open>
  A result rounds to an infinity when its magnitude reaches the largest double plus half
  a unit in its last place, \<open>2^1024 - 2^970\<close>.
\<close>

definition overflow_threshold :: real where
  "overflow_threshold = 2 ^ 1024 - 2 ^ 970"

definition overflow :: "real \<Rightarrow> number" where
  "overflow r =
     (if overflow_threshold \<le> r then PInf
      else if r \<le> - overflow_threshold then NInf
      else Fin r)"

text \<open>The global \<open>isNaN\<close>, on an argument that is a number already.\<close>

definition isNaN :: "number \<Rightarrow> bool" where
  "isNaN a = (a = NaN)"

text \<open>The comparison operators: every comparison with \<open>NaN\<close> is false.\<close>

fun js_lt :: "number \<Rightarrow> number \<Rightarrow> bool" where
  "js_lt NaN b = False"
| "js_lt a NaN = False"
| "js_lt a NInf = False"
| "js_lt NInf b = True"
| "js_lt PInf b = False"
| "js_lt a PInf = True"
| "js_lt (Fin a) (Fin b) = (a < b)"

fun js_le :: "number \<Rightarrow> number \<Rightarrow> bool" where
  "js_le NaN b = False"
| "js_le a NaN = False"
| "js_le NInf b = True"
| "js_le a NInf = False"
| "js_le a PInf = True"
| "js_le PInf b = False"
| "js_le (Fin a) (Fin b) = (a \<le> b)"

definition js_gt :: "number \<Rightarrow> number \<Rightarrow> bool" where
  "js_gt a b = js_lt b a"

definition js_ge :: "number \<Rightarrow> number \<Rightarrow> bool" where
  "js_ge a b = js_le b a"

text \<open>Arithmetic, with the special values as IEEE 754 combines them.\<close>

fun js_neg :: "number \<Rightarrow> number" where
  "js_neg NaN = NaN"
| "js_neg NInf = PInf"
| "js_neg PInf = NInf"
| "js_neg (Fin a) = Fin (- a)"

fun js_add :: "number \<Rightarrow> number \<Rightarrow> number" where
  "js_add NaN b = NaN"
| "js_add a NaN = NaN"
| "js_add PInf NInf = NaN"
| "js_add NInf PInf = NaN"
| "js_add PInf b = PInf"
| "js_add a PInf = PInf"
| "js_add NInf b = NInf"
| "js_add a NInf = NInf"
| "js_add (Fin a) (Fin b) = overflow (a + b)"

definition js_sub :: "number \<Rightarrow> number \<Rightarrow> number" where
  "js_sub a b = js_add a (js_neg b)"

fun js_sign :: "number \<Rightarrow> real" where
  "js_sign NaN = 0"
| "js_sign NInf = - 1"
| "js_sign PInf = 1"
| "js_sign (Fin a) = sgn a"

definition signed_infinity :: "real \<Rightarrow> number" where
  "signed_infinity s = (if s = 0 then NaN else if 0 < s then PInf else NInf)"

fun js_mul :: "number \<Rightarrow> number \<Rightarrow> number" where
  "js_mul NaN b = NaN"
| "js_mul a NaN = NaN"
| "js_mul (Fin a) (Fin b) = overflow (a * b)"
| "js_mul a b = signed_infinity (js_sign a * js_sign b)"

fun js_div :: "number \<Rightarrow> number \<Rightarrow> number" where
  "js_div NaN b = NaN"
| "js_div a NaN = NaN"
| "js_div (Fin a) (Fin b) = (if b = 0 then signed_infinity (sgn a) else overflow (a / b))"
| "js_div (Fin a) b = Fin 0"
| "js_div a (Fin b) = signed_infinity (js_sign a * (if b < 0 then - 1 else 1))"
| "js_div a b = NaN"

text \<open>\<open>Math.PI\<close> is the double nearest to the number pi.\<close>

definition Math_PI :: number where
  "Math_PI = Fin (884279719003555 / 281474976710656)"

text \<open>The quotient \<open>Math.PI / 180\<close>, by which the code turns degrees into radians.\<close>

definition radians_per_degree :: real where
  "radians_per_degree = 884279719003555 / 281474976710656 / 180"

fun Math_min :: "number \<Rightarrow> number \<Rightarrow> number" where
  "Math_min NaN b = NaN"
| "Math_min a NaN = NaN"
| "Math_min a b = (if js_lt b a then b else a)"

fun Math_max :: "number \<Rightarrow> number \<Rightarrow> number" where
  "Math_max NaN b = NaN"
| "Math_max a NaN = NaN"
| "Math_max a b = (if js_lt a b then b else a)"

text \<open>
  The language leaves the values of \<open>Math.sin\<close>, \<open>Math.cos\<close> and \<open>Math.acos\<close> to
  the host, as approximations of the functions: they are the fields of a parameter, the
  \<open>Math\<close> object of the host. What the language fixes is written out: the results for
  \<open>NaN\<close> and the infinities, the sine and the cosine of zero, the arc cosine of 1 and
  of an argument outside \<open>[-1, 1]\<close>.
\<close>

record Math_object =
  sin_approx :: "real \<Rightarrow> real"
  cos_approx :: "real \<Rightarrow> real"
  acos_approx :: "real \<Rightarrow> real"

definition host_sin :: "Math_object \<Rightarrow> real \<Rightarrow> real" where
  "host_sin M a = (if a = 0 then 0 else sin_approx M a)"

definition host_cos :: "Math_object \<Rightarrow> real \<Rightarrow> real" where
  "host_cos M a = (if a = 0 then 1 else cos_approx M a)"

definition host_acos :: "Math_object \<Rightarrow> real \<Rightarrow> real" where
  "host_acos M a = (if a = 1 then 0 else acos_approx M a)"

fun Math_sin :: "Math_object \<Rightarrow> number \<Rightarrow> number" where
  "Math_sin M (Fin a) = Fin (host_sin M a)"
| "Math_sin M a = NaN"

fun Math_cos :: "Math_object \<Rightarrow> number \<Rightarrow> number" where
  "Math_cos M (Fin a) = Fin (host_cos M a)"
| "Math_cos M a = NaN"

fun Math_acos :: "Math_object \<Rightarrow> number \<Rightarrow> number" where
  "Math_acos M (Fin a) = (if a < - 1 \<or> 1 < a then NaN else Fin (host_acos M a))"
| "Math_acos M a = NaN"

text \<open>The host whose three functions are the exact ones.\<close>

definition exact_Math :: Math_object where
  "exact_Math = \<lparr>sin_approx = sin, cos_approx = cos, acos_approx = arccos\<rparr>"

text \<open>
  A host that rounds. At the angles of the examples below its sine and cosine are the
  doubles that \<open>Math.sin\<close> and \<open>Math.cos\<close> return there, written as fractions: at
  2.5 and -2.5 radians \<open>0.5984721441039565\<close> and \<open>-0.8011436155469337\<close>, at 87.5 and
  -87.5 degrees \<open>0.9990482215818578\<close> and \<open>0.04361938736533601\<close> (the sine with the sign
  of the angle), and at 180 degrees the cosine -1. Elsewhere they are the exact functions.
\<close>

definition rounded_Math :: Math_object where
  "rounded_Math =
     \<lparr>sin_approx = (\<lambda>r.
        if r = 5 / 2 then 5390557850356401 / 9007199254740992
        else if r = - (5 / 2) then - (5390557850356401 / 9007199254740992)
        else if r = 175 / 2 * radians_per_degree then 8998626396882423 / 9007199254740992
        else if r = - (175 / 2) * radians_per_degree then - (8998626396882423 / 9007199254740992)
        else sin r),
      cos_approx = (\<lambda>r.
        if r = 5 / 2 \<or> r = - (5 / 2) then - (7216060176894845 / 9007199254740992)
        else if r = 175 / 2 * radians_per_degree \<or> r = - (175 / 2) * radians_per_degree
          then 3143108106954505 / 72057594037927936
        else if r = 180 * radians_per_degree then - 1
        else cos r),
      acos_approx = arccos\<rparr>"

fun Math_sqrt :: "number \<Rightarrow> number" where
  "Math_sqrt (Fin a) = (if a < 0 then NaN else Fin (sqrt a))"
| "Math_sqrt PInf = PInf"
| "Math_sqrt a = NaN"

text \<open>\<open>Math.round\<close> is the floor of the argument plus one half.\<close>

fun Math_round :: "number \<Rightarrow> number" where
  "Math_round (Fin a) = Fin (of_int \<lfloor>a + 1 / 2\<rfloor>)"
| "Math_round a = a"

text \<open>
  Modelled from the spec: the helper \<open>wrap(n, min, max)\<close> that \<open>lng_lat.ts\<close> imports
  from \<open>util/util\<close> is not among the sources. The spec calls it a generic modular wrap
  that maps a longitude into \<open>(-180, 180]\<close>: the value is shifted by a whole number of
  periods \<open>max - min\<close> into \<open>[min, max)\<close>, and the lower end is sent to the upper end.
  The remainder of a number that is not finite is \<open>NaN\<close>, as for the remainder operator
  of the language.
\<close>

fun util_wrap :: "number \<Rightarrow> number \<Rightarrow> number \<Rightarrow> number" where
  "util_wrap (Fin n) (Fin lo) (Fin hi) =
     (let d = hi - lo;
          w = (n - lo) - d * of_int \<lfloor>(n - lo) / d\<rfloor> + lo
      in if d = 0 then NaN else if w = lo then Fin hi else Fin w)"
| "util_wrap n lo hi = NaN"

section \<open>LngLat\<close>

datatype error = InvalidLngLat | InvalidLatitude | TypeError

text \<open>
  Objects are mutable and shared: \<open>LngLatBounds.extend\<close> writes the fields of corner
  objects that its caller may hold as well. So every \<open>LngLat\<close> object lives in a heap,
  a list of records addressed by position; \<open>new\<close> appends.
\<close>

record LngLat =
  lng :: number
  lat :: number

type_synonym ref = nat

type_synonym heap = "LngLat list"

definition EARTH_RADIUS :: number where
  "EARTH_RADIUS = Fin (63710088 / 10)"

text \<open>The body of the constructor: the fields of the new object, or the error thrown.\<close>

definition LngLat_constructor :: "number \<Rightarrow> number \<Rightarrow> error + LngLat" where
  "LngLat_constructor lng0 lat0 =
     (if isNaN lng0 \<or> isNaN lat0 then Inl InvalidLngLat
      else
        (let this = \<lparr>lng = lng0, lat = lat0\<rparr>
         in if js_gt (lat this) (Fin 90) \<or> js_lt (lat this) (Fin (- 90))
            then Inl InvalidLatitude
            else Inr this))"

text \<open>\<open>new LngLat(lng, lat)\<close>: the reference to the new object and the heap holding it.\<close>

definition new_LngLat :: "heap \<Rightarrow> number \<Rightarrow> number \<Rightarrow> error + ref \<times> heap" where
  "new_LngLat h lng0 lat0 =
     (case LngLat_constructor lng0 lat0 of
        Inl e \<Rightarrow> Inl e
      | Inr this \<Rightarrow> Inr (length h, h @ [this]))"

definition LngLat_wrap :: "heap \<Rightarrow> ref \<Rightarrow> error + ref \<times> heap" where
  "LngLat_wrap h this =
     new_LngLat h (util_wrap (lng (h ! this)) (Fin (- 180)) (Fin 180)) (lat (h ! this))"

text \<open>Template literals print numbers; the printing is a parameter.\<close>

definition LngLat_toString :: "(number \<Rightarrow> string) \<Rightarrow> heap \<Rightarrow> ref \<Rightarrow> string" where
  "LngLat_toString fmt h this =
     ''LngLat('' @ fmt (lng (h ! this)) @ '', '' @ fmt (lat (h ! this)) @ '')''"

definition LngLat_distanceTo :: "Math_object \<Rightarrow> heap \<Rightarrow> ref \<Rightarrow> ref \<Rightarrow> number" where
  "LngLat_distanceTo M h this lngLat =
     (let rad = js_div Math_PI (Fin 180);
          lat1 = js_mul (lat (h ! this)) rad;
          lat2 = js_mul (lat (h ! lngLat)) rad;
          a = js_add (js_mul (Math_sin M lat1) (Math_sin M lat2))
                (js_mul (js_mul (Math_cos M lat1) (Math_cos M lat2))
                   (Math_cos M (js_mul (js_sub (lng (h ! lngLat)) (lng (h ! this))) rad)));
          maxMeters = js_mul EARTH_RADIUS (Math_acos M (Math_min a (Fin 1)))
      in maxMeters)"

section \<open>LngLatBounds\<close>

text \<open>
  The fields \<open>_sw\<close> and \<open>_ne\<close> (a name cannot start with an underscore here): a
  reference to a corner object, or \<open>None\<close> while the field is still undefined.
\<close>

record LngLatBounds =
  u_sw :: "ref option"
  u_ne :: "ref option"

definition setNorthEast :: "LngLatBounds \<Rightarrow> ref \<Rightarrow> LngLatBounds" where
  "setNorthEast this ne = this\<lparr>u_ne := Some ne\<rparr>"

definition setSouthWest :: "LngLatBounds \<Rightarrow> ref \<Rightarrow> LngLatBounds" where
  "setSouthWest this sw = this\<lparr>u_sw := Some sw\<rparr>"

text \<open>The constructor tests its arguments for being given at all, so they are optional.\<close>

definition LngLatBounds_constructor :: "ref option \<Rightarrow> ref option \<Rightarrow> LngLatBounds" where
  "LngLatBounds_constructor sw ne =
     (let this = \<lparr>u_sw = None, u_ne = None\<rparr>
      in case sw of
           None \<Rightarrow> this
         | Some s \<Rightarrow>
             (case ne of
                Some n \<Rightarrow> setNorthEast (setSouthWest this s) n
              | None \<Rightarrow> this))"

text \<open>
  \<open>toBounds(radius = 0)\<close>: an omitted radius is \<open>None\<close>. The two corners are constructed
  in turn, so the first error wins.
\<close>

definition LngLat_toBounds ::
  "Math_object \<Rightarrow> heap \<Rightarrow> ref \<Rightarrow> number option \<Rightarrow> error + LngLatBounds \<times> heap" where
  "LngLat_toBounds M h this radius0 =
     (let radius = (case radius0 of None \<Rightarrow> Fin 0 | Some r \<Rightarrow> r);
          earthCircumferenceInMetersAtEquator = Fin 40075017;
          latAccuracy = js_div (js_mul (Fin 360) radius) earthCircumferenceInMetersAtEquator;
          lngAccuracy = js_div latAccuracy (Math_cos M (js_mul (js_div Math_PI (Fin 180)) (lat (h ! this))))
      in case new_LngLat h (js_sub (lng (h ! this)) lngAccuracy) (js_sub (lat (h ! this)) latAccuracy) of
           Inl e \<Rightarrow> Inl e
         | Inr (sw, h1) \<Rightarrow>
             (case new_LngLat h1 (js_add (lng (h1 ! this)) lngAccuracy) (js_add (lat (h1 ! this)) latAccuracy) of
                Inl e \<Rightarrow> Inl e
              | Inr (ne, h2) \<Rightarrow> Inr (LngLatBounds_constructor (Some sw) (Some ne), h2)))"

text \<open>The argument of \<open>extend\<close> is a \<open>LngLat\<close> or a \<open>LngLatBounds\<close>.\<close>

datatype extend_arg = ArgLngLat ref | ArgLngLatBounds LngLatBounds

text \<open>
  \<open>extend\<close> returns \<open>this\<close> (it is \<open>LngLatBounds_extend\<close> here: every record has an
  \<open>extend\<close> of its own). The model returns the error thrown, if any, with the
  receiver and the heap as the call leaves them: an error can come after the first
  writes. Reading a field of an undefined corner is a \<open>TypeError\<close>.
\<close>

definition extend_minmax :: "heap \<Rightarrow> LngLatBounds \<Rightarrow> ref \<Rightarrow> ref \<Rightarrow> error option \<times> LngLatBounds \<times> heap" where
  "extend_minmax h this sw2 ne2 =
     (case u_sw this of
        None \<Rightarrow> (Some TypeError, this, h)
      | Some sw \<Rightarrow>
          (let h1 = h[sw := (h ! sw)\<lparr>lng := Math_min (lng (h ! sw2)) (lng (h ! sw))\<rparr>];
               h2 = h1[sw := (h1 ! sw)\<lparr>lat := Math_min (lat (h1 ! sw2)) (lat (h1 ! sw))\<rparr>]
           in case u_ne this of
                None \<Rightarrow> (Some TypeError, this, h2)
              | Some ne \<Rightarrow>
                  (let h3 = h2[ne := (h2 ! ne)\<lparr>lng := Math_max (lng (h2 ! ne2)) (lng (h2 ! ne))\<rparr>];
                       h4 = h3[ne := (h3 ! ne)\<lparr>lat := Math_max (lat (h3 ! ne2)) (lat (h3 ! ne))\<rparr>]
                   in (None, this, h4))))"

definition extend_init :: "heap \<Rightarrow> LngLatBounds \<Rightarrow> ref \<Rightarrow> ref \<Rightarrow> error option \<times> LngLatBounds \<times> heap" where
  "extend_init h this sw2 ne2 =
     (case new_LngLat h (lng (h ! sw2)) (lat (h ! sw2)) of
        Inl e \<Rightarrow> (Some e, this, h)
      | Inr (sw, h1) \<Rightarrow>
          (let this1 = this\<lparr>u_sw := Some sw\<rparr>
           in case new_LngLat h1 (lng (h1 ! ne2)) (lat (h1 ! ne2)) of
                Inl e \<Rightarrow> (Some e, this1, h1)
              | Inr (ne, h2) \<Rightarrow> (None, this1\<lparr>u_ne := Some ne\<rparr>, h2)))"

definition LngLatBounds_extend :: "heap \<Rightarrow> LngLatBounds \<Rightarrow> extend_arg \<Rightarrow> error option \<times> LngLatBounds \<times> heap" where
  "LngLatBounds_extend h this obj =
     (let sw = u_sw this;
          ne = u_ne this;
          corners = (case obj of
                       ArgLngLat p \<Rightarrow> (Some p, Some p)
                     | ArgLngLatBounds b \<Rightarrow> (u_sw b, u_ne b))
      in case corners of
           (Some sw2, Some ne2) \<Rightarrow>
             (if sw = None \<and> ne = None then extend_init h this sw2 ne2
              else extend_minmax h this sw2 ne2)
         | _ \<Rightarrow> (None, this, h))"

definition getCenter :: "heap \<Rightarrow> LngLatBounds \<Rightarrow> error + ref \<times> heap" where
  "getCenter h this =
     (case u_sw this of
        None \<Rightarrow> Inl TypeError
      | Some sw \<Rightarrow>
          (case u_ne this of
             None \<Rightarrow> Inl TypeError
           | Some ne \<Rightarrow>
               new_LngLat h (js_div (js_add (lng (h ! sw)) (lng (h ! ne))) (Fin 2))
                 (js_div (js_add (lat (h ! sw)) (lat (h ! ne))) (Fin 2))))"

definition getSouthWest :: "LngLatBounds \<Rightarrow> ref option" where
  "getSouthWest this = u_sw this"

definition getNorthEast :: "LngLatBounds \<Rightarrow> ref option" where
  "getNorthEast this = u_ne this"

definition getWest :: "heap \<Rightarrow> LngLatBounds \<Rightarrow> error + number" where
  "getWest h this = (case u_sw this of None \<Rightarrow> Inl TypeError | Some sw \<Rightarrow> Inr (lng (h ! sw)))"

definition getSouth :: "heap \<Rightarrow> LngLatBounds \<Rightarrow> error + number" where
  "getSouth h this = (case u_sw this of None \<Rightarrow> Inl TypeError | Some sw \<Rightarrow> Inr (lat (h ! sw)))"

definition getEast :: "heap \<Rightarrow> LngLatBounds \<Rightarrow> error + number" where
  "getEast h this = (case u_ne this of None \<Rightarrow> Inl TypeError | Some ne \<Rightarrow> Inr (lng (h ! ne)))"

definition getNorth :: "heap \<Rightarrow> LngLatBounds \<Rightarrow> error + number" where
  "getNorth h this = (case u_ne this of None \<Rightarrow> Inl TypeError | Some ne \<Rightarrow> Inr (lat (h ! ne)))"

text \<open>The arguments of \<open>new LngLat\<close> are evaluated from left to right.\<close>

definition getNorthWest :: "heap \<Rightarrow> LngLatBounds \<Rightarrow> error + ref \<times> heap" where
  "getNorthWest h this =
     (case getWest h this of
        Inl e \<Rightarrow> Inl e
      | Inr w \<Rightarrow> (case getNorth h this of Inl e \<Rightarrow> Inl e | Inr n \<Rightarrow> new_LngLat h w n))"

definition getSouthEast :: "heap \<Rightarrow> LngLatBounds \<Rightarrow> error + ref \<times> heap" where
  "getSouthEast h this =
     (case getEast h this of
        Inl e \<Rightarrow> Inl e
      | Inr e0 \<Rightarrow> (case getSouth h this of Inl e \<Rightarrow> Inl e | Inr s \<Rightarrow> new_LngLat h e0 s))"

definition LngLatBounds_toString :: "(number \<Rightarrow> string) \<Rightarrow> heap \<Rightarrow> LngLatBounds \<Rightarrow> error + string" where
  "LngLatBounds_toString fmt h this =
     (case u_sw this of
        None \<Rightarrow> Inl TypeError
      | Some sw \<Rightarrow>
          (case u_ne this of
             None \<Rightarrow> Inl TypeError
           | Some ne \<Rightarrow>
               Inr (''LngLatBounds('' @ LngLat_toString fmt h sw @ '', ''
                      @ LngLat_toString fmt h ne @ '')'')))"

definition isEmpty :: "LngLatBounds \<Rightarrow> bool" where
  "isEmpty this = (\<not> (u_sw this \<noteq> None \<and> u_ne this \<noteq> None))"

text \<open>
  \<open>contains\<close>: \<open>&&\<close> evaluates its right operand only when the left one is true, so
  the field of \<open>_ne\<close> is read only then; the test for wrapped coordinates reads both
  corners in any case.
\<close>

definition range_check :: "number \<Rightarrow> number \<Rightarrow> (ref \<Rightarrow> number) \<Rightarrow> ref option \<Rightarrow> error + bool" where
  "range_check low v field ne =
     (if js_le low v
      then (case ne of None \<Rightarrow> Inl TypeError | Some n \<Rightarrow> Inr (js_le v (field n)))
      else Inr False)"

definition contains :: "heap \<Rightarrow> LngLatBounds \<Rightarrow> ref \<Rightarrow> error + bool" where
  "contains h this lnglat =
     (let lng0 = lng (h ! lnglat);
          lat0 = lat (h ! lnglat)
      in case u_sw this of
           None \<Rightarrow> Inl TypeError
         | Some sw \<Rightarrow>
             (case range_check (lat (h ! sw)) lat0 (\<lambda>n. lat (h ! n)) (u_ne this) of
                Inl e \<Rightarrow> Inl e
              | Inr containsLatitude \<Rightarrow>
                  (case range_check (lng (h ! sw)) lng0 (\<lambda>n. lng (h ! n)) (u_ne this) of
                     Inl e \<Rightarrow> Inl e
                   | Inr containsLongitude0 \<Rightarrow>
                       (case u_ne this of
                          None \<Rightarrow> Inl TypeError
                        | Some ne \<Rightarrow>
                            (let containsLongitude =
                                   (if js_gt (lng (h ! sw)) (lng (h ! ne))
                                    then js_ge (lng (h ! sw)) lng0 \<and> js_ge lng0 (lng (h ! ne))
                                    else containsLongitude0)
                             in Inr (containsLatitude \<and> containsLongitude))))))"

section \<open>Point\<close>

text \<open>
  Points are mutable objects too: the methods whose names start with an underscore
  write the fields of the receiver, the others work on a clone. A store of points is a
  list addressed by position. A method \<open>_add\<close> of the class is \<open>Point__add\<close> here.
\<close>

record Point =
  x :: number
  y :: number

type_synonym store = "Point list"

definition new_Point :: "store \<Rightarrow> number \<Rightarrow> number \<Rightarrow> ref \<times> store" where
  "new_Point st x0 y0 = (length st, st @ [\<lparr>x = x0, y = y0\<rparr>])"

definition clone :: "store \<Rightarrow> ref \<Rightarrow> ref \<times> store" where
  "clone st this = new_Point st (x (st ! this)) (y (st ! this))"

definition set_x :: "store \<Rightarrow> ref \<Rightarrow> number \<Rightarrow> store" where
  "set_x st this v = st[this := (st ! this)\<lparr>x := v\<rparr>]"

definition set_y :: "store \<Rightarrow> ref \<Rightarrow> number \<Rightarrow> store" where
  "set_y st this v = st[this := (st ! this)\<lparr>y := v\<rparr>]"

definition mag :: "store \<Rightarrow> ref \<Rightarrow> number" where
  "mag st this =
     Math_sqrt (js_add (js_mul (x (st ! this)) (x (st ! this))) (js_mul (y (st ! this)) (y (st ! this))))"

text \<open>An index past the end of an array reads \<open>undefined\<close>, which arithmetic turns into \<open>NaN\<close>.\<close>

definition array_get :: "number list \<Rightarrow> nat \<Rightarrow> number" where
  "array_get m i = (if i < length m then m ! i else NaN)"

definition Point__matMult :: "store \<Rightarrow> ref \<Rightarrow> number list \<Rightarrow> ref \<times> store" where
  "Point__matMult st this m =
     (let x1 = js_add (js_mul (array_get m 0) (x (st ! this))) (js_mul (array_get m 1) (y (st ! this)));
          y1 = js_add (js_mul (array_get m 2) (x (st ! this))) (js_mul (array_get m 3) (y (st ! this)));
          st1 = set_x st this x1;
          st2 = set_y st1 this y1
      in (this, st2))"

definition Point__add :: "store \<Rightarrow> ref \<Rightarrow> ref \<Rightarrow> ref \<times> store" where
  "Point__add st this p =
     (let st1 = set_x st this (js_add (x (st ! this)) (x (st ! p)));
          st2 = set_y st1 this (js_add (y (st1 ! this)) (y (st1 ! p)))
      in (this, st2))"

definition Point__sub :: "store \<Rightarrow> ref \<Rightarrow> ref \<Rightarrow> ref \<times> store" where
  "Point__sub st this p =
     (let st1 = set_x st this (js_sub (x (st ! this)) (x (st ! p)));
          st2 = set_y st1 this (js_sub (y (st1 ! this)) (y (st1 ! p)))
      in (this, st2))"

definition Point__mult :: "store \<Rightarrow> ref \<Rightarrow> number \<Rightarrow> ref \<times> store" where
  "Point__mult st this k =
     (let st1 = set_x st this (js_mul (x (st ! this)) k);
          st2 = set_y st1 this (js_mul (y (st1 ! this)) k)
      in (this, st2))"

definition Point__div :: "store \<Rightarrow> ref \<Rightarrow> number \<Rightarrow> ref \<times> store" where
  "Point__div st this k =
     (let st1 = set_x st this (js_div (x (st ! this)) k);
          st2 = set_y st1 this (js_div (y (st1 ! this)) k)
      in (this, st2))"

definition Point__multByPoint :: "store \<Rightarrow> ref \<Rightarrow> ref \<Rightarrow> ref \<times> store" where
  "Point__multByPoint st this p =
     (let st1 = set_x st this (js_mul (x (st ! this)) (x (st ! p)));
          st2 = set_y st1 this (js_mul (y (st1 ! this)) (y (st1 ! p)))
      in (this, st2))"

definition Point__divByPoint :: "store \<Rightarrow> ref \<Rightarrow> ref \<Rightarrow> ref \<times> store" where
  "Point__divByPoint st this p =
     (let st1 = set_x st this (js_div (x (st ! this)) (x (st ! p)));
          st2 = set_y st1 this (js_div (y (st1 ! this)) (y (st1 ! p)))
      in (this, st2))"

definition Point__unit :: "store \<Rightarrow> ref \<Rightarrow> ref \<times> store" where
  "Point__unit st this = (this, snd (Point__div st this (mag st this)))"

definition Point__perp :: "store \<Rightarrow> ref \<Rightarrow> ref \<times> store" where
  "Point__perp st this =
     (let y0 = y (st ! this);
          st1 = set_y st this (x (st ! this));
          st2 = set_x st1 this (js_neg y0)
      in (this, st2))"

definition Point__rotate :: "Math_object \<Rightarrow> store \<Rightarrow> ref \<Rightarrow> number \<Rightarrow> ref \<times> store" where
  "Point__rotate M st this angle =
     (let cos0 = Math_cos M angle;
          sin0 = Math_sin M angle;
          x1 = js_sub (js_mul cos0 (x (st ! this))) (js_mul sin0 (y (st ! this)));
          y1 = js_add (js_mul sin0 (x (st ! this))) (js_mul cos0 (y (st ! this)));
          st1 = set_x st this x1;
          st2 = set_y st1 this y1
      in (this, st2))"

definition Point__rotateAround ::
  "Math_object \<Rightarrow> store \<Rightarrow> ref \<Rightarrow> number \<Rightarrow> ref \<Rightarrow> ref \<times> store" where
  "Point__rotateAround M st this angle p =
     (let cos0 = Math_cos M angle;
          sin0 = Math_sin M angle;
          x1 = js_sub (js_add (x (st ! p)) (js_mul cos0 (js_sub (x (st ! this)) (x (st ! p)))))
                 (js_mul sin0 (js_sub (y (st ! this)) (y (st ! p))));
          y1 = js_add (js_add (y (st ! p)) (js_mul sin0 (js_sub (x (st ! this)) (x (st ! p)))))
                 (js_mul cos0 (js_sub (y (st ! this)) (y (st ! p))));
          st1 = set_x st this x1;
          st2 = set_y st1 this y1
      in (this, st2))"

definition Point__round :: "store \<Rightarrow> ref \<Rightarrow> ref \<times> store" where
  "Point__round st this =
     (let st1 = set_x st this (Math_round (x (st ! this)));
          st2 = set_y st1 this (Math_round (y (st1 ! this)))
      in (this, st2))"

text \<open>The copying methods: each clones the receiver and runs the writing method on the clone.\<close>

definition Point_add :: "store \<Rightarrow> ref \<Rightarrow> ref \<Rightarrow> ref \<times> store" where
  "Point_add st this p = (case clone st this of (c, st1) \<Rightarrow> Point__add st1 c p)"

definition Point_sub :: "store \<Rightarrow> ref \<Rightarrow> ref \<Rightarrow> ref \<times> store" where
  "Point_sub st this p = (case clone st this of (c, st1) \<Rightarrow> Point__sub st1 c p)"

definition Point_multByPoint :: "store \<Rightarrow> ref \<Rightarrow> ref \<Rightarrow> ref \<times> store" where
  "Point_multByPoint st this p = (case clone st this of (c, st1) \<Rightarrow> Point__multByPoint st1 c p)"

definition Point_divByPoint :: "store \<Rightarrow> ref \<Rightarrow> ref \<Rightarrow> ref \<times> store" where
  "Point_divByPoint st this p = (case clone st this of (c, st1) \<Rightarrow> Point__divByPoint st1 c p)"

definition Point_mult :: "store \<Rightarrow> ref \<Rightarrow> number \<Rightarrow> ref \<times> store" where
  "Point_mult st this k = (case clone st this of (c, st1) \<Rightarrow> Point__mult st1 c k)"

definition Point_div :: "store \<Rightarrow> ref \<Rightarrow> number \<Rightarrow> ref \<times> store" where
  "Point_div st this k = (case clone st this of (c, st1) \<Rightarrow> Point__div st1 c k)"

definition Point_rotate :: "Math_object \<Rightarrow> store \<Rightarrow> ref \<Rightarrow> number \<Rightarrow> ref \<times> store" where
  "Point_rotate M st this a = (case clone st this of (c, st1) \<Rightarrow> Point__rotate M st1 c a)"

definition Point_rotateAround ::
  "Math_object \<Rightarrow> store \<Rightarrow> ref \<Rightarrow> number \<Rightarrow> ref \<Rightarrow> ref \<times> store" where
  "Point_rotateAround M st this a p =
     (case clone st this of (c, st1) \<Rightarrow> Point__rotateAround M st1 c a p)"

definition Point_matMult :: "store \<Rightarrow> ref \<Rightarrow> number list \<Rightarrow> ref \<times> store" where
  "Point_matMult st this m = (case clone st this of (c, st1) \<Rightarrow> Point__matMult st1 c m)"

definition Point_unit :: "store \<Rightarrow> ref \<Rightarrow> ref \<times> store" where
  "Point_unit st this = (case clone st this of (c, st1) \<Rightarrow> Point__unit st1 c)"

definition Point_perp :: "store \<Rightarrow> ref \<Rightarrow> ref \<times> store" where
  "Point_perp st this = (case clone st this of (c, st1) \<Rightarrow> Point__perp st1 c)"

definition Point_round :: "store \<Rightarrow> ref \<Rightarrow> ref \<times> store" where
  "Point_round st this = (case clone st this of (c, st1) \<Rightarrow> Point__round st1 c)"

section \<open>Predicates of the specification\<close>

text \<open>
  An object as the constructor leaves it: the constructor accepts its two fields.
  Every object of a well-formed heap is one.
\<close>

definition LngLat_invariant :: "LngLat \<Rightarrow> bool" where
  "LngLat_invariant v = (case LngLat_constructor (lng v) (lat v) of Inl e \<Rightarrow> False | Inr w \<Rightarrow> True)"

definition heap_ok :: "heap \<Rightarrow> bool" where
  "heap_ok h = list_all LngLat_invariant h"

text \<open>A corner field that is set refers to an object of the heap.\<close>

fun allocated :: "heap \<Rightarrow> ref option \<Rightarrow> bool" where
  "allocated h None = True"
| "allocated h (Some r) = (r < length h)"

definition bounds_allocated :: "heap \<Rightarrow> LngLatBounds \<Rightarrow> bool" where
  "bounds_allocated h b = (allocated h (u_sw b) \<and> allocated h (u_ne b))"

fun arg_allocated :: "heap \<Rightarrow> extend_arg \<Rightarrow> bool" where
  "arg_allocated h (ArgLngLat p) = (p < length h)"
| "arg_allocated h (ArgLngLatBounds b) = bounds_allocated h b"

text \<open>The invariant of the bounds: once both corners are set, \<open>southwest.lat <= northeast.lat\<close>.\<close>

definition lat_ordered :: "heap \<Rightarrow> LngLatBounds \<Rightarrow> bool" where
  "lat_ordered h b =
     (case u_sw b of
        None \<Rightarrow> True
      | Some sw \<Rightarrow> (case u_ne b of None \<Rightarrow> True | Some ne \<Rightarrow> js_le (lat (h ! sw)) (lat (h ! ne))))"

fun arg_ordered :: "heap \<Rightarrow> extend_arg \<Rightarrow> bool" where
  "arg_ordered h (ArgLngLat p) = True"
| "arg_ordered h (ArgLngLatBounds b) = lat_ordered h b"

text \<open>
  The distance as the specification words it: both latitudes and the difference of the
  longitudes converted to radians, \<open>a\<close> by the spherical law of cosines, \<open>a\<close> clamped
  to at most 1, and the radius of 6371008.8 metres times the arc cosine of the result.
\<close>

definition to_radians :: "number \<Rightarrow> number" where
  "to_radians v = js_mul v (js_div Math_PI (Fin 180))"

definition spec_cosine :: "Math_object \<Rightarrow> LngLat \<Rightarrow> LngLat \<Rightarrow> number" where
  "spec_cosine M p q =
     (let lat1 = to_radians (lat p);
          lat2 = to_radians (lat q);
          dlng = to_radians (js_sub (lng q) (lng p))
      in js_add (js_mul (Math_sin M lat1) (Math_sin M lat2))
           (js_mul (js_mul (Math_cos M lat1) (Math_cos M lat2)) (Math_cos M dlng)))"

definition spec_clamp :: "number \<Rightarrow> number" where
  "spec_clamp a = (if js_gt a (Fin 1) then Fin 1 else a)"

definition spec_distance :: "Math_object \<Rightarrow> LngLat \<Rightarrow> LngLat \<Rightarrow> number" where
  "spec_distance M p q = js_mul (Fin (63710088 / 10)) (Math_acos M (spec_clamp (spec_cosine M p q)))"

section \<open>Construction of a LngLat\<close>

lemma js_gt_90: "js_gt b (Fin 90) = (case b of Fin r \<Rightarrow> 90 < r | PInf \<Rightarrow> True | _ \<Rightarrow> False)"
  by (cases b) (simp_all add: js_gt_def)

lemma js_lt_m90: "js_lt b (Fin (- 90)) = (case b of Fin r \<Rightarrow> r < - 90 | NInf \<Rightarrow> True | _ \<Rightarrow> False)"
  by (cases b) simp_all

lemma new_LngLat_eq:
  "new_LngLat h a b =
     (if a = NaN \<or> b = NaN then Inl InvalidLngLat
      else case b of
             Fin r \<Rightarrow> (if - 90 \<le> r \<and> r \<le> 90
                        then Inr (length h, h @ [\<lparr>lng = a, lat = b\<rparr>])
                        else Inl InvalidLatitude)
           | _ \<Rightarrow> Inl InvalidLatitude)"
  by (cases b) (auto simp add: new_LngLat_def LngLat_constructor_def isNaN_def js_gt_90 js_lt_m90 Let_def)

text \<open>
  C1, as amended. \<open>new LngLat(lng, lat)\<close> throws exactly when one of the arguments is
  \<open>NaN\<close> or the latitude is not a number of \<open>[-90, 90]\<close> (an infinite latitude is out
  of range); otherwise it succeeds and stores the two arguments as given. The longitude
  is only tested for \<open>NaN\<close>, so an infinite longitude is accepted. A latitude of
  90.0001 or of -90.0001 is refused.
\<close>

theorem LngLat_constructor_throws_iff:
  "new_LngLat h a b =
     (if a = NaN \<or> b = NaN then Inl InvalidLngLat
      else case b of
             Fin r \<Rightarrow> (if - 90 \<le> r \<and> r \<le> 90
                        then Inr (length h, h @ [\<lparr>lng = a, lat = b\<rparr>])
                        else Inl InvalidLatitude)
           | _ \<Rightarrow> Inl InvalidLatitude)
   \<and> new_LngLat h a (Fin (900001 / 10000)) = (if a = NaN then Inl InvalidLngLat else Inl InvalidLatitude)
   \<and> new_LngLat h a (Fin (- (900001 / 10000))) = (if a = NaN then Inl InvalidLngLat else Inl InvalidLatitude)"
  by (simp add: new_LngLat_eq)

text \<open>
  C1 as stated fails: it has construction fail on every input that is not finite, and
  the constructor accepts the longitude \<open>Infinity\<close>.
\<close>

theorem LngLat_constructor_infinite_lng:
  "new_LngLat [] PInf (Fin 0) = Inr (0, [\<lparr>lng = PInf, lat = Fin 0\<rparr>])"
  by (simp add: new_LngLat_def LngLat_constructor_def isNaN_def js_gt_def)

section \<open>Containment\<close>

lemma contains_both_set:
  assumes "u_sw this = Some sw" and "u_ne this = Some ne"
  shows "contains h this p =
     Inr ((js_le (lat (h ! sw)) (lat (h ! p)) \<and> js_le (lat (h ! p)) (lat (h ! ne)))
          \<and> (if js_gt (lng (h ! sw)) (lng (h ! ne))
             then js_ge (lng (h ! sw)) (lng (h ! p)) \<and> js_ge (lng (h ! p)) (lng (h ! ne))
             else js_le (lng (h ! sw)) (lng (h ! p)) \<and> js_le (lng (h ! p)) (lng (h ! ne))))"
  using assms by (auto simp add: contains_def range_check_def Let_def)

text \<open>
  C3, as amended. For bounds with both corners set, \<open>contains\<close> returns true exactly
  when the latitude passes the inclusive test \<open>sw.lat <= lat <= ne.lat\<close> and the
  longitude passes \<open>sw.lng <= lng <= ne.lng\<close> when \<open>sw.lng <= ne.lng\<close>, and
  \<open>sw.lng >= lng >= ne.lng\<close> when \<open>sw.lng > ne.lng\<close>. The example of the claim is left
  out: this very test refuses it.
\<close>

theorem contains_formula:
  assumes "u_sw this = Some sw" and "u_ne this = Some ne"
  shows "contains h this p =
     Inr ((js_le (lat (h ! sw)) (lat (h ! p)) \<and> js_le (lat (h ! p)) (lat (h ! ne)))
          \<and> (if js_gt (lng (h ! sw)) (lng (h ! ne))
             then js_ge (lng (h ! sw)) (lng (h ! p)) \<and> js_ge (lng (h ! p)) (lng (h ! ne))
             else js_le (lng (h ! sw)) (lng (h ! p)) \<and> js_le (lng (h ! p)) (lng (h ! ne))))"
  using assms by (rule contains_both_set)

text \<open>The formula at a point strictly inside a box that is not wrapped.\<close>

theorem contains_formula_witness:
  "contains [\<lparr>lng = Fin (- 1), lat = Fin (- 1)\<rparr>, \<lparr>lng = Fin 1, lat = Fin 1\<rparr>, \<lparr>lng = Fin 0, lat = Fin 0\<rparr>]
     \<lparr>u_sw = Some 0, u_ne = Some 1\<rparr> 2 = Inr True"
  using contains_formula [of "\<lparr>u_sw = Some 0, u_ne = Some 1\<rparr>" 0 1
      "[\<lparr>lng = Fin (- 1), lat = Fin (- 1)\<rparr>, \<lparr>lng = Fin 1, lat = Fin 1\<rparr>, \<lparr>lng = Fin 0, lat = Fin 0\<rparr>]" 2]
  by (simp add: js_gt_def js_ge_def)

text \<open>
  C3 as stated fails at its own example: the box with \<open>sw.lng = 170\<close> and
  \<open>ne.lng = -170\<close> does not contain the point with \<open>lng = 180\<close> and a latitude in
  range, since \<open>170 >= 180\<close> is false.
\<close>

theorem contains_wrapped_excludes_180:
  "contains [\<lparr>lng = Fin 170, lat = Fin (- 10)\<rparr>, \<lparr>lng = Fin (- 170), lat = Fin 10\<rparr>, \<lparr>lng = Fin 180, lat = Fin 0\<rparr>]
     (LngLatBounds_constructor (Some 0) (Some 1)) 2 = Inr False"
  by (simp add: contains_def range_check_def LngLatBounds_constructor_def setNorthEast_def setSouthWest_def
      js_gt_def js_ge_def Let_def)

section \<open>Reading the corners of empty bounds\<close>

lemma new_LngLat_not_TypeError: "new_LngLat h a b \<noteq> Inl TypeError"
  by (auto simp add: new_LngLat_def LngLat_constructor_def Let_def split: sum.splits)

lemma contains_TypeError: "(contains h b p = Inl TypeError) = isEmpty b"
  by (auto simp add: contains_def range_check_def isEmpty_def Let_def split: option.splits)

lemma contains_isl: "isl (contains h b p) = isEmpty b"
  by (auto simp add: contains_def range_check_def isEmpty_def Let_def split: option.splits)

lemma getCenter_TypeError: "(getCenter h b = Inl TypeError) = isEmpty b"
  by (auto simp add: getCenter_def isEmpty_def new_LngLat_not_TypeError split: option.splits)

lemma getNorthWest_TypeError: "(getNorthWest h b = Inl TypeError) = isEmpty b"
  by (auto simp add: getNorthWest_def getWest_def getNorth_def isEmpty_def new_LngLat_not_TypeError
      split: option.splits)

lemma getSouthEast_TypeError: "(getSouthEast h b = Inl TypeError) = isEmpty b"
  by (auto simp add: getSouthEast_def getEast_def getSouth_def isEmpty_def new_LngLat_not_TypeError
      split: option.splits)

lemma toString_isl: "isl (LngLatBounds_toString fmt h b) = isEmpty b"
  by (auto simp add: LngLatBounds_toString_def isEmpty_def split: option.splits)

lemma toString_TypeError: "(LngLatBounds_toString fmt h b = Inl TypeError) = isEmpty b"
  by (auto simp add: LngLatBounds_toString_def isEmpty_def split: option.splits)

lemma edge_TypeError:
  "(getWest h b = Inl TypeError) = (u_sw b = None)"
  "(getSouth h b = Inl TypeError) = (u_sw b = None)"
  "(getEast h b = Inl TypeError) = (u_ne b = None)"
  "(getNorth h b = Inl TypeError) = (u_ne b = None)"
  by (auto simp add: getWest_def getSouth_def getEast_def getNorth_def split: option.splits)

text \<open>
  C10. \<open>contains\<close>, \<open>getCenter\<close>, the derived corners \<open>getNorthWest\<close> and
  \<open>getSouthEast\<close>, and \<open>toString\<close> read a field of both corners: each ends in the
  \<open>TypeError\<close> of reading an undefined corner exactly when \<open>isEmpty()\<close> is true, and
  \<open>contains\<close> and \<open>toString\<close> end in no other error. The accessors of one edge read
  one corner: they end in that error exactly when their own corner is unset.
\<close>

theorem TypeError_iff_isEmpty:
  "(contains h b p = Inl TypeError) = isEmpty b
   \<and> isl (contains h b p) = isEmpty b
   \<and> (getCenter h b = Inl TypeError) = isEmpty b
   \<and> (getNorthWest h b = Inl TypeError) = isEmpty b
   \<and> (getSouthEast h b = Inl TypeError) = isEmpty b
   \<and> (LngLatBounds_toString fmt h b = Inl TypeError) = isEmpty b
   \<and> isl (LngLatBounds_toString fmt h b) = isEmpty b
   \<and> (getWest h b = Inl TypeError) = (u_sw b = None)
   \<and> (getSouth h b = Inl TypeError) = (u_sw b = None)
   \<and> (getEast h b = Inl TypeError) = (u_ne b = None)
   \<and> (getNorth h b = Inl TypeError) = (u_ne b = None)"
  by (simp only: contains_TypeError contains_isl getCenter_TypeError getNorthWest_TypeError
      getSouthEast_TypeError toString_TypeError toString_isl edge_TypeError simp_thms)

section \<open>The range of the doubles\<close>

lemma threshold_large: "(2::real) ^ 1023 < overflow_threshold"
proof -
  have "(2::real) ^ 970 < 2 ^ 1023"
    by (rule power_strict_increasing) simp_all
  moreover have "(2::real) ^ 1024 = 2 * 2 ^ 1023"
    by simp
  ultimately show ?thesis
    unfolding overflow_threshold_def by linarith
qed

lemma threshold_small: "(2::real) ^ 40 < overflow_threshold"
proof -
  have "(2::real) ^ 40 \<le> 2 ^ 1023" by (rule power_increasing) simp_all
  then show ?thesis using threshold_large by linarith
qed

lemma overflow_in_range: "- overflow_threshold < r \<Longrightarrow> r < overflow_threshold \<Longrightarrow> overflow r = Fin r"
  by (simp add: overflow_def)

lemma overflow_abs: "\<bar>r\<bar> < overflow_threshold \<Longrightarrow> overflow r = Fin r"
  by (rule overflow_in_range) linarith+

lemma overflow_small: "\<bar>r\<bar> \<le> 1000000000000 \<Longrightarrow> overflow r = Fin r"
proof -
  have "(1000000000000::real) \<le> 2 ^ 40" by simp
  then show "\<bar>r\<bar> \<le> 1000000000000 \<Longrightarrow> overflow r = Fin r"
    using threshold_small by (intro overflow_abs) linarith
qed

lemma overflow_not_NaN: "overflow r \<noteq> NaN"
  by (simp add: overflow_def)

lemma rad_eq: "js_div Math_PI (Fin 180) = Fin radians_per_degree"
  by (simp add: Math_PI_def radians_per_degree_def overflow_small)

lemma rad_bounds: "0 < radians_per_degree" "radians_per_degree \<le> 1"
  by (simp_all add: radians_per_degree_def)

lemma scaled_abs: "\<bar>v * radians_per_degree\<bar> \<le> \<bar>v\<bar>"
proof -
  have "\<bar>v * radians_per_degree\<bar> = \<bar>v\<bar> * radians_per_degree"
    using rad_bounds(1) by (simp add: abs_mult)
  also have "\<dots> \<le> \<bar>v\<bar> * 1"
    using rad_bounds(2) by (intro mult_left_mono) simp_all
  finally show ?thesis by simp
qed

lemma to_radians_Fin: "\<bar>v\<bar> < overflow_threshold \<Longrightarrow> js_mul (Fin v) (Fin radians_per_degree) = Fin (v * radians_per_degree)"
  using scaled_abs [of v] by (simp add: overflow_abs)

section \<open>Distance\<close>

lemma Math_min_clamp: "Math_min a (Fin 1) = spec_clamp a"
  by (cases a) (simp_all add: spec_clamp_def js_gt_def)

lemma distanceTo_refines: "LngLat_distanceTo M h p q = spec_distance M (h ! p) (h ! q)"
  unfolding LngLat_distanceTo_def spec_distance_def spec_cosine_def to_radians_def Let_def
    Math_min_clamp EARTH_RADIUS_def
  by (rule refl)

lemma clamped_arc_cosine:
  "js_mul (Fin (63710088 / 10)) (Math_acos M (spec_clamp a)) =
     (case a of
        Fin r \<Rightarrow> (if r < - 1 then NaN
                   else if 1 \<le> r then Fin 0
                   else js_mul (Fin (63710088 / 10)) (Fin (host_acos M r)))
      | PInf \<Rightarrow> Fin 0
      | NInf \<Rightarrow> NaN
      | NaN \<Rightarrow> NaN)"
  by (cases a) (auto simp add: spec_clamp_def js_gt_def host_acos_def overflow_small)

text \<open>
  C4. For every two \<open>LngLat\<close> objects and every host, \<open>distanceTo\<close> is the radius
  6371008.8 times the arc cosine of \<open>a\<close> clamped to at most 1, where \<open>a\<close> is the
  spherical law of cosines on the two latitudes and the difference of the longitudes,
  all converted to radians. The clamp decides the result where \<open>a\<close> is above 1: the
  distance is 0 there (also for an infinite \<open>a\<close>), where the arc cosine alone has no
  value. It guards that side only: an \<open>a\<close> below -1 gives \<open>NaN\<close>, as does an \<open>a\<close>
  that is \<open>NaN\<close>.
\<close>

theorem distanceTo_clamped_law_of_cosines:
  "LngLat_distanceTo M h p q = spec_distance M (h ! p) (h ! q)
   \<and> spec_distance M (h ! p) (h ! q) =
     (case spec_cosine M (h ! p) (h ! q) of
        Fin a \<Rightarrow> (if a < - 1 then NaN
                   else if 1 \<le> a then Fin 0
                   else js_mul (Fin (63710088 / 10)) (Fin (host_acos M a)))
      | PInf \<Rightarrow> Fin 0
      | NInf \<Rightarrow> NaN
      | NaN \<Rightarrow> NaN)"
  using distanceTo_refines [of M h p q] clamped_arc_cosine [of M "spec_cosine M (h ! p) (h ! q)"]
  by (simp only: spec_distance_def simp_thms)

text \<open>
  The theorem at the host that rounds, for the distance from the point (0, 87.5) to
  itself: the squares of the sine and the cosine add up to more than 1, the clamp brings
  \<open>a\<close> to 1, and the distance is 0, where the arc cosine of \<open>a\<close> would be \<open>NaN\<close>.
\<close>

theorem distanceTo_overshoot_clamped:
  "js_gt (spec_cosine rounded_Math \<lparr>lng = Fin 0, lat = Fin (175 / 2)\<rparr> \<lparr>lng = Fin 0, lat = Fin (175 / 2)\<rparr>) (Fin 1)
   \<and> LngLat_distanceTo rounded_Math [\<lparr>lng = Fin 0, lat = Fin (175 / 2)\<rparr>] 0 0 = Fin 0"
proof -
  have c: "spec_cosine rounded_Math \<lparr>lng = Fin 0, lat = Fin (175 / 2)\<rparr> \<lparr>lng = Fin 0, lat = Fin (175 / 2)\<rparr>
      = Fin (8998626396882423 / 9007199254740992 * (8998626396882423 / 9007199254740992)
             + 3143108106954505 / 72057594037927936 * (3143108106954505 / 72057594037927936))"
    by (simp add: spec_cosine_def to_radians_def rad_eq radians_per_degree_def host_sin_def
        host_cos_def rounded_Math_def js_sub_def overflow_small Let_def)
  have g: "js_gt (spec_cosine rounded_Math \<lparr>lng = Fin 0, lat = Fin (175 / 2)\<rparr> \<lparr>lng = Fin 0, lat = Fin (175 / 2)\<rparr>) (Fin 1)"
    unfolding c by (simp add: js_gt_def)
  have "LngLat_distanceTo rounded_Math [\<lparr>lng = Fin 0, lat = Fin (175 / 2)\<rparr>] 0 0 = Fin 0"
    using distanceTo_clamped_law_of_cosines [of rounded_Math "[\<lparr>lng = Fin 0, lat = Fin (175 / 2)\<rparr>]" 0 0]
    by (simp add: c)
  with g show ?thesis by simp
qed

text \<open>
  Below -1 nothing guards the arc cosine. At the same host, from the point (0, -87.5) to
  its antipode (180, 87.5), \<open>a\<close> is less than -1 and the distance is \<open>NaN\<close>.
\<close>

theorem distanceTo_undershoot_NaN:
  "js_lt (spec_cosine rounded_Math \<lparr>lng = Fin 0, lat = Fin (- (175 / 2))\<rparr> \<lparr>lng = Fin 180, lat = Fin (175 / 2)\<rparr>) (Fin (- 1))
   \<and> LngLat_distanceTo rounded_Math
        [\<lparr>lng = Fin 0, lat = Fin (- (175 / 2))\<rparr>, \<lparr>lng = Fin 180, lat = Fin (175 / 2)\<rparr>] 0 1 = NaN"
proof -
  have c: "spec_cosine rounded_Math \<lparr>lng = Fin 0, lat = Fin (- (175 / 2))\<rparr> \<lparr>lng = Fin 180, lat = Fin (175 / 2)\<rparr>
      = Fin (- (8998626396882423 / 9007199254740992) * (8998626396882423 / 9007199254740992)
             + 3143108106954505 / 72057594037927936 * (3143108106954505 / 72057594037927936) * (- 1))"
    by (simp add: spec_cosine_def to_radians_def rad_eq radians_per_degree_def host_sin_def
        host_cos_def rounded_Math_def js_sub_def overflow_small Let_def)
  have l: "js_lt (spec_cosine rounded_Math \<lparr>lng = Fin 0, lat = Fin (- (175 / 2))\<rparr> \<lparr>lng = Fin 180, lat = Fin (175 / 2)\<rparr>) (Fin (- 1))"
    unfolding c by simp
  have "spec_distance rounded_Math \<lparr>lng = Fin 0, lat = Fin (- (175 / 2))\<rparr> \<lparr>lng = Fin 180, lat = Fin (175 / 2)\<rparr> = NaN"
    unfolding spec_distance_def c by (simp add: spec_clamp_def js_gt_def)
  then have "LngLat_distanceTo rounded_Math
      [\<lparr>lng = Fin 0, lat = Fin (- (175 / 2))\<rparr>, \<lparr>lng = Fin 180, lat = Fin (175 / 2)\<rparr>] 0 1 = NaN"
    by (simp add: distanceTo_refines)
  with l show ?thesis by simp
qed

section \<open>Wrapping the longitude\<close>

lemma util_wrap_lng:
  "\<exists>k::int. - 180 < l - 360 * of_int k \<and> l - 360 * of_int k \<le> 180
     \<and> util_wrap (Fin l) (Fin (- 180)) (Fin 180) = Fin (l - 360 * of_int k)"
proof -
  define k0 where "k0 = \<lfloor>(l + 180) / 360\<rfloor>"
  have lo: "of_int k0 \<le> (l + 180) / 360" and hi: "(l + 180) / 360 < of_int k0 + 1"
    unfolding k0_def by linarith+
  have lo': "360 * of_int k0 \<le> l + 180" and hi': "l + 180 < 360 * of_int k0 + 360"
    using lo hi by (simp_all add: field_simps)
  have w: "util_wrap (Fin l) (Fin (- 180)) (Fin 180) =
      (if l - 360 * of_int k0 = - 180 then Fin 180 else Fin (l - 360 * of_int k0))"
    by (simp add: Let_def k0_def)
  show ?thesis
  proof (cases "l - 360 * of_int k0 = - 180")
    case True
    have "util_wrap (Fin l) (Fin (- 180)) (Fin 180) = Fin (l - 360 * of_int (k0 - 1))"
      using True w by simp
    moreover have "- 180 < l - 360 * of_int (k0 - 1)" "l - 360 * of_int (k0 - 1) \<le> 180"
      using True by simp_all
    ultimately show ?thesis by blast
  next
    case False
    have "util_wrap (Fin l) (Fin (- 180)) (Fin 180) = Fin (l - 360 * of_int k0)"
      using False w by simp
    moreover have "- 180 < l - 360 * of_int k0" "l - 360 * of_int k0 \<le> 180"
      using False lo' hi' by linarith+
    ultimately show ?thesis by blast
  qed
qed

text \<open>
  C5, as amended. For every \<open>LngLat\<close> whose longitude is finite, \<open>wrap()\<close> returns a
  new \<open>LngLat\<close> whose longitude is the original one shifted by a whole number of turns
  into \<open>(-180, 180]\<close> and whose latitude is unchanged; \<open>LngLat(200, 10).wrap()\<close> has
  the longitude -160 and the latitude 10.
\<close>

theorem wrap_into_interval:
  assumes "lng (h ! this) = Fin l" and "lat (h ! this) = Fin t" and "- 90 \<le> t" and "t \<le> 90"
  shows "\<exists>k::int. - 180 < l - 360 * of_int k \<and> l - 360 * of_int k \<le> 180
     \<and> LngLat_wrap h this = Inr (length h, h @ [\<lparr>lng = Fin (l - 360 * of_int k), lat = Fin t\<rparr>])"
proof -
  obtain k :: int where k: "- 180 < l - 360 * of_int k" "l - 360 * of_int k \<le> 180"
      "util_wrap (Fin l) (Fin (- 180)) (Fin 180) = Fin (l - 360 * of_int k)"
    using util_wrap_lng by blast
  have "LngLat_wrap h this = Inr (length h, h @ [\<lparr>lng = Fin (l - 360 * of_int k), lat = Fin t\<rparr>])"
    unfolding LngLat_wrap_def assms(1,2) k(3) using assms(3,4) by (simp add: new_LngLat_eq)
  with k(1,2) show ?thesis by blast
qed

text \<open>The example of the claim, from the theorem: 200 is wrapped to -160.\<close>

theorem wrap_200_10:
  "LngLat_wrap [\<lparr>lng = Fin 200, lat = Fin 10\<rparr>] 0 = Inr (1, [\<lparr>lng = Fin 200, lat = Fin 10\<rparr>, \<lparr>lng = Fin (- 160), lat = Fin 10\<rparr>])"
proof -
  obtain k :: int where k: "- 180 < 200 - 360 * (of_int k :: real)" "200 - 360 * (of_int k :: real) \<le> 180"
     "LngLat_wrap [\<lparr>lng = Fin 200, lat = Fin 10\<rparr>] 0
        = Inr (length [\<lparr>lng = Fin 200, lat = Fin 10\<rparr>],
            [\<lparr>lng = Fin 200, lat = Fin 10\<rparr>] @ [\<lparr>lng = Fin (200 - 360 * of_int k), lat = Fin 10\<rparr>])"
    using wrap_into_interval [of "[\<lparr>lng = Fin 200, lat = Fin 10\<rparr>]" 0 200 10] by auto
  have "0 < k" "k < 2" using k(1,2) by linarith+
  then have "k = 1" by linarith
  with k(3) show ?thesis by simp
qed

text \<open>
  C5 as stated fails for a longitude that is not finite: the constructor accepts
  \<open>LngLat(Infinity, 0)\<close>, no shift by whole turns brings it into the interval, and
  \<open>wrap()\<close> ends in the error of the constructor.
\<close>

theorem wrap_infinite_lng:
  "new_LngLat [] PInf (Fin 0) = Inr (0, [\<lparr>lng = PInf, lat = Fin 0\<rparr>])
   \<and> LngLat_wrap [\<lparr>lng = PInf, lat = Fin 0\<rparr>] 0 = Inl InvalidLngLat"
  by (simp add: new_LngLat_eq LngLat_wrap_def)

section \<open>Bounds around a point\<close>

lemma new_LngLat_range:
  "new_LngLat h a b =
     (if a = NaN \<or> b = NaN then Inl InvalidLngLat
      else if js_le (Fin (- 90)) b \<and> js_le b (Fin 90) then Inr (length h, h @ [\<lparr>lng = a, lat = b\<rparr>])
      else Inl InvalidLatitude)"
  by (cases b) (auto simp add: new_LngLat_eq)

lemma threshold_180: "(180::real) < overflow_threshold"
  using threshold_small by simp

lemma latAccuracy_cases:
  assumes "0 < r"
  shows "(js_div (js_mul (Fin 360) (Fin r)) (Fin 40075017) = Fin (360 * r / 40075017)
            \<and> 360 * r / 40075017 < overflow_threshold)
       \<or> (js_div (js_mul (Fin 360) (Fin r)) (Fin 40075017) = PInf \<and> 180 < 360 * r / 40075017)"
proof (cases "360 * r < overflow_threshold")
  case True
  have "360 * r / 40075017 \<le> 360 * r"
    using assms by (simp add: field_simps)
  then have d: "360 * r / 40075017 < overflow_threshold" "- overflow_threshold < 360 * r / 40075017"
    using True assms threshold_180 by (simp_all add: less_le_trans [of _ 0])
  have "js_mul (Fin 360) (Fin r) = Fin (360 * r)"
    using True assms threshold_180 by (simp add: overflow_def)
  then show ?thesis
    using d by (simp add: overflow_in_range)
next
  case False
  then have m: "js_mul (Fin 360) (Fin r) = PInf"
    by (simp add: overflow_def)
  have "(180::real) * 40075017 \<le> 2 ^ 40"
    by simp
  then have "180 * 40075017 < 360 * r"
    using False threshold_small by linarith
  then have "180 < 360 * r / 40075017"
    by (simp add: field_simps)
  then show ?thesis
    using m by (simp add: signed_infinity_def)
qed

lemma Fin_plus_not_NaN: "b \<noteq> NaN \<Longrightarrow> js_add (Fin l) b \<noteq> NaN \<and> js_sub (Fin l) b \<noteq> NaN"
  by (cases b) (simp_all add: js_sub_def overflow_not_NaN)

lemma lngAccuracy_not_NaN:
  assumes "la = PInf \<or> (\<exists>d. la = Fin d \<and> 0 < d)"
  shows "js_div la (Fin c) \<noteq> NaN"
  using assms by (auto simp add: signed_infinity_def overflow_not_NaN split: if_splits)

lemma corner_latitudes:
  assumes "- 90 \<le> t" and "t \<le> 90" and "0 < d"
    and "(la = Fin d \<and> d < overflow_threshold) \<or> (la = PInf \<and> 180 < d)"
  shows "js_sub (Fin t) la \<noteq> NaN" and "js_add (Fin t) la \<noteq> NaN"
    and "(js_le (Fin (- 90)) (js_sub (Fin t) la) \<and> js_le (js_sub (Fin t) la) (Fin 90)) = (- 90 \<le> t - d)"
    and "(js_le (Fin (- 90)) (js_add (Fin t) la) \<and> js_le (js_add (Fin t) la) (Fin 90)) = (t + d \<le> 90)"
  using assms threshold_180
  by (auto simp add: js_sub_def overflow_def split: if_splits)

text \<open>
  C9. For a \<open>LngLat\<close> with finite fields and a positive radius, \<open>toBounds(radius)\<close>
  throws exactly when a corner latitude leaves the range: \<open>lat + latAccuracy\<close> exceeds
  90 or \<open>lat - latAccuracy\<close> falls below -90, with
  \<open>latAccuracy = 360 * radius / 40075017\<close>; the error is the one of the constructor.
  So it throws for some valid point and radius, as \<open>LngLat(0, 90).toBounds(1)\<close> does.
\<close>

theorem toBounds_throws_iff:
  assumes "this < length h" and "lng (h ! this) = Fin l" and "lat (h ! this) = Fin t"
    and "- 90 \<le> t" and "t \<le> 90" and "0 < r"
  shows "(LngLat_toBounds M h this (Some (Fin r)) = Inl InvalidLatitude)
      = (t - 360 * r / 40075017 < - 90 \<or> 90 < t + 360 * r / 40075017)
    \<and> isl (LngLat_toBounds M h this (Some (Fin r)))
      = (t - 360 * r / 40075017 < - 90 \<or> 90 < t + 360 * r / 40075017)"
proof -
  define d where "d = 360 * r / 40075017"
  define la where "la = js_div (js_mul (Fin 360) (Fin r)) (Fin 40075017)"
  have d: "0 < d" using assms(6) by (simp add: d_def)
  have la: "(la = Fin d \<and> d < overflow_threshold) \<or> (la = PInf \<and> 180 < d)"
    unfolding la_def d_def using assms(6) by (rule latAccuracy_cases)
  have "\<bar>t\<bar> < overflow_threshold"
    using assms(4,5) threshold_180 by linarith
  then have "js_mul (Fin radians_per_degree) (Fin t) = Fin (radians_per_degree * t)"
    using to_radians_Fin [of t] by (simp add: mult.commute)
  then obtain c where cs: "Math_cos M (js_mul (js_div Math_PI (Fin 180)) (Fin t)) = Fin c"
    unfolding rad_eq by simp
  have acc: "js_div la (Fin c) \<noteq> NaN"
    using la d by (intro lngAccuracy_not_NaN) blast
  have lngs: "js_sub (Fin l) (js_div la (Fin c)) \<noteq> NaN" "js_add (Fin l) (js_div la (Fin c)) \<noteq> NaN"
    using Fin_plus_not_NaN [OF acc] by simp_all
  note lats = corner_latitudes [OF assms(4,5) d la]
  have rd: "\<And>v. (h @ [v]) ! this = h ! this"
    using assms(1) by (simp add: nth_append)
  have *: "LngLat_toBounds M h this (Some (Fin r)) =
     (if t - d < - 90 \<or> 90 < t + d then Inl InvalidLatitude
      else Inr (LngLatBounds_constructor (Some (length h)) (Some (Suc (length h))),
             h @ [\<lparr>lng = js_sub (Fin l) (js_div la (Fin c)), lat = js_sub (Fin t) la\<rparr>,
                  \<lparr>lng = js_add (Fin l) (js_div la (Fin c)), lat = js_add (Fin t) la\<rparr>]))"
    unfolding LngLat_toBounds_def Let_def option.case la_def [symmetric] cs assms(2,3)
    using lngs lats
    by (simp add: new_LngLat_range rd assms(2,3) not_less
        del: js_div.simps js_add.simps js_mul.simps)
  show ?thesis
    unfolding * d_def [symmetric] by simp
qed

text \<open>The example of the claim: \<open>LngLat(0, 90)\<close> is constructed, and \<open>toBounds(1)\<close> on it throws.\<close>

theorem toBounds_at_pole:
  "new_LngLat [] (Fin 0) (Fin 90) = Inr (0, [\<lparr>lng = Fin 0, lat = Fin 90\<rparr>])
   \<and> LngLat_toBounds exact_Math [\<lparr>lng = Fin 0, lat = Fin 90\<rparr>] 0 (Some (Fin 1)) = Inl InvalidLatitude"
  using toBounds_throws_iff [of 0 "[\<lparr>lng = Fin 0, lat = Fin 90\<rparr>]" 0 90 1 exact_Math]
  by (simp add: new_LngLat_eq)

section \<open>Extending empty bounds\<close>

lemma LngLat_invariant_iff:
  "LngLat_invariant v = (lng v \<noteq> NaN \<and> (\<exists>t. lat v = Fin t \<and> - 90 \<le> t \<and> t \<le> 90))"
  by (cases "lat v")
    (auto simp add: LngLat_invariant_def LngLat_constructor_def isNaN_def js_gt_def Let_def)

lemma new_LngLat_copy:
  "LngLat_invariant v \<Longrightarrow> new_LngLat h (lng v) (lat v) = Inr (length h, h @ [v])"
  by (auto simp add: LngLat_invariant_iff new_LngLat_eq)

lemma heap_ok_nth: "heap_ok h \<Longrightarrow> r < length h \<Longrightarrow> LngLat_invariant (h ! r)"
  by (simp add: heap_ok_def list_all_length)

lemma heap_ok_update: "heap_ok h \<Longrightarrow> LngLat_invariant v \<Longrightarrow> heap_ok (h[r := v])"
  using set_update_subset_insert [of h r v] by (auto simp add: heap_ok_def list_all_iff)

lemma extend_init_eq:
  assumes "LngLat_invariant (h ! sw2)" and "LngLat_invariant (h ! ne2)" and "ne2 < length h"
  shows "extend_init h this sw2 ne2 =
     (None, this\<lparr>u_sw := Some (length h), u_ne := Some (Suc (length h))\<rparr>, h @ [h ! sw2, h ! ne2])"
  using assms by (simp add: extend_init_def new_LngLat_copy nth_append Let_def)

lemma half_sum_Fin:
  "js_div (js_add (Fin l) (Fin l)) (Fin 2) =
     (if overflow_threshold \<le> l + l then PInf
      else if l + l \<le> - overflow_threshold then NInf
      else Fin l)"
proof -
  have "overflow l = Fin l" if "\<not> overflow_threshold \<le> l + l" and "\<not> l + l \<le> - overflow_threshold"
    using that by (intro overflow_abs) linarith
  then show ?thesis
    by (simp add: overflow_def signed_infinity_def)
qed

lemma half_sum_lat: "- 90 \<le> t \<Longrightarrow> t \<le> 90 \<Longrightarrow> js_div (js_add (Fin t) (Fin t)) (Fin 2) = Fin t"
  unfolding half_sum_Fin using threshold_180 by simp

lemma half_sum_infinite:
  "js_div (js_add PInf PInf) (Fin 2) = PInf" "js_div (js_add NInf NInf) (Fin 2) = NInf"
  by (simp_all add: signed_infinity_def)

lemma center_lng:
  "a \<noteq> NaN \<Longrightarrow>
     js_div (js_add a a) (Fin 2) =
       (case a of
          Fin l \<Rightarrow> (if overflow_threshold \<le> l + l then PInf
                     else if l + l \<le> - overflow_threshold then NInf
                     else Fin l)
        | v \<Rightarrow> v)"
  by (cases a) (simp_all only: half_sum_Fin half_sum_infinite number.case, simp)

text \<open>
  C6, as amended. Extending bounds with both corners unset by a point \<open>P\<close> sets the two
  corners to two new objects, which hold the fields of \<open>P\<close> and are neither \<open>P\<close> nor
  each other (they are allocated past every object of the heap), and leaves \<open>P\<close> and
  the rest of the heap as they were. \<open>getCenter()\<close> on the result is a new \<open>LngLat\<close>
  with the latitude of \<open>P\<close>, and with the longitude of \<open>P\<close> unless the sum
  \<open>lng + lng\<close> overflows the doubles: then its longitude is the infinity of that sign.
\<close>

theorem extend_empty_with_point:
  assumes "p < length h" and "LngLat_invariant (h ! p)" and "u_sw this = None" and "u_ne this = None"
  shows "LngLatBounds_extend h this (ArgLngLat p) =
           (None, this\<lparr>u_sw := Some (length h), u_ne := Some (Suc (length h))\<rparr>, h @ [h ! p, h ! p])
       \<and> getCenter (h @ [h ! p, h ! p]) (this\<lparr>u_sw := Some (length h), u_ne := Some (Suc (length h))\<rparr>) =
           Inr (Suc (Suc (length h)),
                h @ [h ! p, h ! p,
                     \<lparr>lng = (case lng (h ! p) of
                               Fin l \<Rightarrow> (if overflow_threshold \<le> l + l then PInf
                                          else if l + l \<le> - overflow_threshold then NInf
                                          else Fin l)
                             | v \<Rightarrow> v),
                      lat = lat (h ! p)\<rparr>])"
proof -
  have e: "LngLatBounds_extend h this (ArgLngLat p) =
           (None, this\<lparr>u_sw := Some (length h), u_ne := Some (Suc (length h))\<rparr>, h @ [h ! p, h ! p])"
    using assms by (simp add: LngLatBounds_extend_def extend_init_eq Let_def)
  obtain t where v: "lng (h ! p) \<noteq> NaN" "lat (h ! p) = Fin t" "- 90 \<le> t" "t \<le> 90"
    using assms(2) by (auto simp add: LngLat_invariant_iff)
  let ?c = "(case lng (h ! p) of
               Fin l \<Rightarrow> (if overflow_threshold \<le> l + l then PInf
                          else if l + l \<le> - overflow_threshold then NInf
                          else Fin l)
             | v \<Rightarrow> v)"
  have cl: "js_div (js_add (lng (h ! p)) (lng (h ! p))) (Fin 2) = ?c"
    using v(1) by (rule center_lng)
  have cn: "?c \<noteq> NaN"
    using v(1) by (cases "lng (h ! p)") simp_all
  have ct: "js_div (js_add (Fin t) (Fin t)) (Fin 2) = Fin t"
    using v(3,4) by (rule half_sum_lat)
  have c: "getCenter (h @ [h ! p, h ! p]) (this\<lparr>u_sw := Some (length h), u_ne := Some (Suc (length h))\<rparr>) =
           Inr (Suc (Suc (length h)), h @ [h ! p, h ! p, \<lparr>lng = ?c, lat = lat (h ! p)\<rparr>])"
    using cn v(3,4)
    by (simp add: getCenter_def nth_append cl ct new_LngLat_eq v(2)
        del: js_div.simps js_add.simps)
  from e c show ?thesis by simp
qed

text \<open>The theorem at the point \<open>(3, 4)\<close> and the bounds of the constructor without arguments.\<close>

theorem extend_empty_with_point_witness:
  "LngLatBounds_extend [\<lparr>lng = Fin 3, lat = Fin 4\<rparr>] (LngLatBounds_constructor None None) (ArgLngLat 0) =
      (None, \<lparr>u_sw = Some 1, u_ne = Some 2\<rparr>,
       [\<lparr>lng = Fin 3, lat = Fin 4\<rparr>, \<lparr>lng = Fin 3, lat = Fin 4\<rparr>, \<lparr>lng = Fin 3, lat = Fin 4\<rparr>])
   \<and> getCenter [\<lparr>lng = Fin 3, lat = Fin 4\<rparr>, \<lparr>lng = Fin 3, lat = Fin 4\<rparr>, \<lparr>lng = Fin 3, lat = Fin 4\<rparr>]
        \<lparr>u_sw = Some 1, u_ne = Some 2\<rparr> =
      Inr (3, [\<lparr>lng = Fin 3, lat = Fin 4\<rparr>, \<lparr>lng = Fin 3, lat = Fin 4\<rparr>, \<lparr>lng = Fin 3, lat = Fin 4\<rparr>,
               \<lparr>lng = Fin 3, lat = Fin 4\<rparr>])"
proof -
  have "\<not> overflow_threshold \<le> (3::real) + 3" "\<not> (3::real) + 3 \<le> - overflow_threshold"
    using threshold_180 by simp_all
  then show ?thesis
    using extend_empty_with_point [of 0 "[\<lparr>lng = Fin 3, lat = Fin 4\<rparr>]" "LngLatBounds_constructor None None"]
    by (simp add: LngLat_invariant_iff LngLatBounds_constructor_def eval_nat_numeral)
qed

lemma point_on_equator:
  fixes l :: real
  defines "P \<equiv> \<lparr>lng = Fin l, lat = Fin 0\<rparr>"
  shows "new_LngLat [] (Fin l) (Fin 0) = Inr (0, [P])"
    and "LngLatBounds_extend [P] (LngLatBounds_constructor None None) (ArgLngLat 0) =
      (None, \<lparr>u_sw = Some 1, u_ne = Some 2\<rparr>, [P, P, P])"
    and "overflow_threshold \<le> l + l \<Longrightarrow>
      getCenter [P, P, P] \<lparr>u_sw = Some 1, u_ne = Some 2\<rparr> = Inr (3, [P, P, P, \<lparr>lng = PInf, lat = Fin 0\<rparr>])"
proof -
  have inv: "LngLat_invariant P"
    by (simp add: LngLat_invariant_iff P_def)
  show "new_LngLat [] (Fin l) (Fin 0) = Inr (0, [P])"
    by (simp add: new_LngLat_eq P_def)
  show "LngLatBounds_extend [P] (LngLatBounds_constructor None None) (ArgLngLat 0) =
      (None, \<lparr>u_sw = Some 1, u_ne = Some 2\<rparr>, [P, P, P])"
    using extend_init_eq [of "[P]" 0 0 "\<lparr>u_sw = None, u_ne = None\<rparr>"] inv
    by (simp add: LngLatBounds_extend_def LngLatBounds_constructor_def Let_def eval_nat_numeral)
  have z: "js_div (js_add (Fin 0) (Fin 0)) (Fin 2) = Fin 0"
    by (rule half_sum_lat) simp_all
  show "getCenter [P, P, P] \<lparr>u_sw = Some 1, u_ne = Some 2\<rparr> = Inr (3, [P, P, P, \<lparr>lng = PInf, lat = Fin 0\<rparr>])"
    if "overflow_threshold \<le> l + l"
  proof -
    have c: "js_div (js_add (Fin l) (Fin l)) (Fin 2) = PInf"
      unfolding half_sum_Fin using that by simp
    show ?thesis
      by (simp add: getCenter_def P_def c z new_LngLat_eq eval_nat_numeral del: js_div.simps js_add.simps)
  qed
qed

text \<open>
  C6 as stated fails for a point whose longitude is large: the constructor accepts
  \<open>LngLat(2^1023, 0)\<close>, and the centre of the bounds extended from it has the longitude
  \<open>Infinity\<close>.
\<close>

theorem getCenter_overflows:
  "new_LngLat [] (Fin (2 ^ 1023)) (Fin 0) = Inr (0, [\<lparr>lng = Fin (2 ^ 1023), lat = Fin 0\<rparr>])
   \<and> LngLatBounds_extend [\<lparr>lng = Fin (2 ^ 1023), lat = Fin 0\<rparr>] (LngLatBounds_constructor None None) (ArgLngLat 0) =
      (None, \<lparr>u_sw = Some 1, u_ne = Some 2\<rparr>,
       [\<lparr>lng = Fin (2 ^ 1023), lat = Fin 0\<rparr>, \<lparr>lng = Fin (2 ^ 1023), lat = Fin 0\<rparr>,
        \<lparr>lng = Fin (2 ^ 1023), lat = Fin 0\<rparr>])
   \<and> getCenter [\<lparr>lng = Fin (2 ^ 1023), lat = Fin 0\<rparr>, \<lparr>lng = Fin (2 ^ 1023), lat = Fin 0\<rparr>,
                \<lparr>lng = Fin (2 ^ 1023), lat = Fin 0\<rparr>] \<lparr>u_sw = Some 1, u_ne = Some 2\<rparr> =
      Inr (3, [\<lparr>lng = Fin (2 ^ 1023), lat = Fin 0\<rparr>, \<lparr>lng = Fin (2 ^ 1023), lat = Fin 0\<rparr>,
               \<lparr>lng = Fin (2 ^ 1023), lat = Fin 0\<rparr>, \<lparr>lng = PInf, lat = Fin 0\<rparr>])"
proof -
  have big: "overflow_threshold \<le> 2 ^ 1023 + 2 ^ 1023"
    unfolding overflow_threshold_def by simp
  show ?thesis
    using point_on_equator(1,2) [of "2 ^ 1023"] point_on_equator(3) [OF big]
    by (intro conjI)
qed

section \<open>The order of the corner latitudes\<close>

lemma js_le_refl: "a \<noteq> NaN \<Longrightarrow> js_le a a"
  by (cases a) simp_all

lemma js_le_trans: "js_le a b \<Longrightarrow> js_le b c \<Longrightarrow> js_le a c"
  by (cases a; cases b; cases c) simp_all

lemma Math_min_not_NaN: "c \<noteq> NaN \<Longrightarrow> a \<noteq> NaN \<Longrightarrow> Math_min c a \<noteq> NaN"
  by (cases a; cases c) simp_all

lemma Math_max_not_NaN: "c \<noteq> NaN \<Longrightarrow> a \<noteq> NaN \<Longrightarrow> Math_max c a \<noteq> NaN"
  by (cases a; cases c) simp_all

lemma Math_min_le: "c \<noteq> NaN \<Longrightarrow> a \<noteq> NaN \<Longrightarrow> js_le (Math_min c a) a"
  by (cases a; cases c) simp_all

lemma Math_max_ge: "c \<noteq> NaN \<Longrightarrow> a \<noteq> NaN \<Longrightarrow> js_le a (Math_max c a)"
  by (cases a; cases c) simp_all

lemma Math_min_lat: "- 90 \<le> s \<Longrightarrow> s \<le> 90 \<Longrightarrow> - 90 \<le> t \<Longrightarrow> t \<le> 90 \<Longrightarrow>
    \<exists>u. Math_min (Fin s) (Fin t) = Fin u \<and> - 90 \<le> u \<and> u \<le> 90"
  by simp

lemma Math_max_lat: "- 90 \<le> s \<Longrightarrow> s \<le> 90 \<Longrightarrow> - 90 \<le> t \<Longrightarrow> t \<le> 90 \<Longrightarrow>
    \<exists>u. Math_max (Fin s) (Fin t) = Fin u \<and> - 90 \<le> u \<and> u \<le> 90"
  by simp

lemma invariant_min_lng:
  "LngLat_invariant v \<Longrightarrow> LngLat_invariant w \<Longrightarrow> LngLat_invariant (v\<lparr>lng := Math_min (lng w) (lng v)\<rparr>)"
  by (simp add: LngLat_invariant_iff Math_min_not_NaN)

lemma invariant_max_lng:
  "LngLat_invariant v \<Longrightarrow> LngLat_invariant w \<Longrightarrow> LngLat_invariant (v\<lparr>lng := Math_max (lng w) (lng v)\<rparr>)"
  by (simp add: LngLat_invariant_iff Math_max_not_NaN)

lemma invariant_min_lat:
  "LngLat_invariant v \<Longrightarrow> LngLat_invariant w \<Longrightarrow> LngLat_invariant (v\<lparr>lat := Math_min (lat w) (lat v)\<rparr>)"
  using Math_min_lat by (auto simp add: LngLat_invariant_iff simp del: Math_min.simps)

lemma invariant_max_lat:
  "LngLat_invariant v \<Longrightarrow> LngLat_invariant w \<Longrightarrow> LngLat_invariant (v\<lparr>lat := Math_max (lat w) (lat v)\<rparr>)"
  using Math_max_lat by (auto simp add: LngLat_invariant_iff simp del: Math_max.simps)

lemma invariant_lat_not_NaN: "LngLat_invariant v \<Longrightarrow> lat v \<noteq> NaN"
  by (auto simp add: LngLat_invariant_iff)

lemma extend_minmax_ok:
  assumes ok: "heap_ok h"
    and sw: "u_sw this = Some s" and ne: "u_ne this = Some n"
    and s: "s < length h" and n: "n < length h" and s2: "sw2 < length h" and n2: "ne2 < length h"
    and le: "js_le (lat (h ! s)) (lat (h ! n))"
  shows "\<exists>h'. extend_minmax h this sw2 ne2 = (None, this, h') \<and> heap_ok h' \<and> length h' = length h
     \<and> js_le (lat (h' ! s)) (lat (h' ! n))"
proof -
  define h1 where "h1 = h[s := (h ! s)\<lparr>lng := Math_min (lng (h ! sw2)) (lng (h ! s))\<rparr>]"
  define h2 where "h2 = h1[s := (h1 ! s)\<lparr>lat := Math_min (lat (h1 ! sw2)) (lat (h1 ! s))\<rparr>]"
  define h3 where "h3 = h2[n := (h2 ! n)\<lparr>lng := Math_max (lng (h2 ! ne2)) (lng (h2 ! n))\<rparr>]"
  define h4 where "h4 = h3[n := (h3 ! n)\<lparr>lat := Math_max (lat (h3 ! ne2)) (lat (h3 ! n))\<rparr>]"
  have len: "length h1 = length h" "length h2 = length h" "length h3 = length h" "length h4 = length h"
    by (simp_all add: h1_def h2_def h3_def h4_def)
  have ok1: "heap_ok h1"
    unfolding h1_def using ok s s2 by (intro heap_ok_update invariant_min_lng heap_ok_nth)
  have ok2: "heap_ok h2"
    unfolding h2_def using ok1 s s2 len by (intro heap_ok_update invariant_min_lat heap_ok_nth) simp_all
  have ok3: "heap_ok h3"
    unfolding h3_def using ok2 n n2 len by (intro heap_ok_update invariant_max_lng heap_ok_nth) simp_all
  have ok4: "heap_ok h4"
    unfolding h4_def using ok3 n n2 len by (intro heap_ok_update invariant_max_lat heap_ok_nth) simp_all
  have nn: "\<And>r. r < length h \<Longrightarrow> lat (h ! r) \<noteq> NaN" "\<And>r. r < length h \<Longrightarrow> lat (h2 ! r) \<noteq> NaN"
    "\<And>r. r < length h \<Longrightarrow> lat (h3 ! r) \<noteq> NaN" "\<And>r. r < length h \<Longrightarrow> lat (h4 ! r) \<noteq> NaN"
    using ok ok2 ok3 ok4 len by (simp_all add: heap_ok_nth invariant_lat_not_NaN)
  have lat1: "\<And>r. lat (h1 ! r) = lat (h ! r)"
    using s by (simp add: h1_def nth_list_update)
  have lat3: "\<And>r. lat (h3 ! r) = lat (h2 ! r)"
    using n len by (simp add: h3_def nth_list_update)
  have s_le: "js_le (lat (h2 ! s)) (lat (h ! s))"
    using s s2 len nn(1) by (simp add: h2_def lat1 Math_min_le del: Math_min.simps)
  have n_ge: "js_le (lat (h3 ! n)) (lat (h4 ! n))"
    using n n2 len nn(3) by (simp add: h4_def Math_max_ge del: Math_max.simps)
  have goal: "js_le (lat (h4 ! s)) (lat (h4 ! n))"
  proof (cases "s = n")
    case True
    then show ?thesis using nn(4) [OF n] by (simp add: js_le_refl)
  next
    case False
    have a: "lat (h4 ! s) = lat (h2 ! s)"
      using False by (simp add: h4_def lat3)
    have b: "lat (h3 ! n) = lat (h ! n)"
      using False by (simp add: lat3 h2_def lat1)
    have "js_le (lat (h2 ! s)) (lat (h ! n))"
      using s_le le by (rule js_le_trans)
    then have "js_le (lat (h4 ! s)) (lat (h3 ! n))"
      by (simp add: a b)
    then show ?thesis using n_ge by (rule js_le_trans)
  qed
  have "extend_minmax h this sw2 ne2 = (None, this, h4)"
    by (simp add: extend_minmax_def sw ne Let_def h1_def h2_def h3_def h4_def)
  with ok4 len(4) goal show ?thesis by blast
qed

lemma heap_ok_copies:
  assumes "heap_ok h" and "a < length h" and "b < length h"
  shows "heap_ok (h @ [h ! a, h ! b])"
  using heap_ok_nth [OF assms(1,2)] heap_ok_nth [OF assms(1,3)] assms(1) by (simp add: heap_ok_def)

lemma extend_result:
  assumes ok: "heap_ok h" and al: "bounds_allocated h this" and lo: "lat_ordered h this"
    and s2: "sw2 < length h" and n2: "ne2 < length h" and le2: "js_le (lat (h ! sw2)) (lat (h ! ne2))"
  shows "case (if u_sw this = None \<and> u_ne this = None then extend_init h this sw2 ne2
               else extend_minmax h this sw2 ne2) of
           (exc, this', h') \<Rightarrow>
             heap_ok h' \<and> bounds_allocated h' this' \<and> length h \<le> length h' \<and> lat_ordered h' this'
             \<and> (exc = None) = ((u_sw this = None) = (u_ne this = None))
             \<and> (exc = None \<and> isEmpty this') = False"
proof (cases "u_sw this")
  case None
  note sw = None
  show ?thesis
  proof (cases "u_ne this")
    case None
    have "extend_init h this sw2 ne2 =
       (None, this\<lparr>u_sw := Some (length h), u_ne := Some (Suc (length h))\<rparr>, h @ [h ! sw2, h ! ne2])"
      using ok s2 n2 by (intro extend_init_eq heap_ok_nth)
    then show ?thesis
      using sw None heap_ok_copies [OF ok s2 n2] le2
      by (simp add: bounds_allocated_def lat_ordered_def isEmpty_def nth_append)
  next
    case (Some n)
    then show ?thesis
      using sw ok al by (simp add: extend_minmax_def lat_ordered_def)
  qed
next
  case (Some s)
  note sw = Some
  show ?thesis
  proof (cases "u_ne this")
    case None
    define h1 where "h1 = h[s := (h ! s)\<lparr>lng := Math_min (lng (h ! sw2)) (lng (h ! s))\<rparr>]"
    define h2 where "h2 = h1[s := (h1 ! s)\<lparr>lat := Math_min (lat (h1 ! sw2)) (lat (h1 ! s))\<rparr>]"
    have s: "s < length h" using al sw by (simp add: bounds_allocated_def)
    have ok1: "heap_ok h1"
      unfolding h1_def using ok s s2 by (intro heap_ok_update invariant_min_lng heap_ok_nth)
    have ok2: "heap_ok h2"
      unfolding h2_def using ok1 s s2 by (intro heap_ok_update invariant_min_lat heap_ok_nth) (simp_all add: h1_def)
    have "extend_minmax h this sw2 ne2 = (Some TypeError, this, h2)"
      by (simp add: extend_minmax_def sw None Let_def h1_def h2_def)
    then show ?thesis
      using sw None ok2 s by (simp add: bounds_allocated_def lat_ordered_def h1_def h2_def)
  next
    case (Some n)
    have sn: "s < length h" "n < length h" using al sw Some by (simp_all add: bounds_allocated_def)
    have le: "js_le (lat (h ! s)) (lat (h ! n))" using lo sw Some by (simp add: lat_ordered_def)
    obtain h' where h': "extend_minmax h this sw2 ne2 = (None, this, h')" "heap_ok h'" "length h' = length h"
        "js_le (lat (h' ! s)) (lat (h' ! n))"
      using extend_minmax_ok [OF ok sw Some sn s2 n2 le] by blast
    then show ?thesis
      using sw Some sn by (simp add: bounds_allocated_def lat_ordered_def isEmpty_def)
  qed
qed

text \<open>
  C2, as amended. On a heap of valid objects, \<open>extend\<close> keeps
  \<open>southwest.lat <= northeast.lat\<close>: when the bounds satisfy it (bounds with an unset
  corner do) and the argument is a point or bounds that satisfy it, the bounds satisfy it
  afterwards, whatever objects the corners share. So \<open>extend\<close> establishes it from
  empty bounds and every later \<open>extend\<close> preserves it. The call ends without error
  unless exactly one corner is set and the argument has both, and then the bounds are
  empty only if they and the argument were. The two-corner constructor and the setters
  take the corners as given and establish nothing.
\<close>

theorem extend_keeps_lat_order:
  assumes "heap_ok h" and "bounds_allocated h this" and "arg_allocated h obj"
    and "lat_ordered h this" and "arg_ordered h obj"
  shows "case LngLatBounds_extend h this obj of
           (exc, this', h') \<Rightarrow>
             heap_ok h' \<and> bounds_allocated h' this' \<and> length h \<le> length h' \<and> lat_ordered h' this'
             \<and> (exc = None) = ((u_sw this = None) = (u_ne this = None)
                                \<or> (case obj of ArgLngLat p \<Rightarrow> False | ArgLngLatBounds b \<Rightarrow> isEmpty b))
             \<and> (exc = None \<and> isEmpty this')
                 = (isEmpty this \<and> (case obj of ArgLngLat p \<Rightarrow> False | ArgLngLatBounds b \<Rightarrow> isEmpty b))"
proof (cases obj)
  case (ArgLngLat p)
  have p: "p < length h" using assms(3) ArgLngLat by simp
  have "js_le (lat (h ! p)) (lat (h ! p))"
    using heap_ok_nth [OF assms(1) p] by (simp add: js_le_refl invariant_lat_not_NaN)
  from extend_result [OF assms(1,2,4) p p this] show ?thesis
    by (simp add: LngLatBounds_extend_def ArgLngLat Let_def)
next
  case (ArgLngLatBounds b)
  show ?thesis
  proof (cases "isEmpty b")
    case True
    then have "LngLatBounds_extend h this obj = (None, this, h)"
      by (auto simp add: LngLatBounds_extend_def ArgLngLatBounds isEmpty_def Let_def split: option.splits)
    then show ?thesis
      using assms True by (simp add: ArgLngLatBounds)
  next
    case False
    then obtain sw2 ne2 where c: "u_sw b = Some sw2" "u_ne b = Some ne2"
      by (auto simp add: isEmpty_def)
    have r: "sw2 < length h" "ne2 < length h" "js_le (lat (h ! sw2)) (lat (h ! ne2))"
      using assms(3,5) c by (simp_all add: ArgLngLatBounds bounds_allocated_def lat_ordered_def)
    from extend_result [OF assms(1,2,4) r] show ?thesis
      using False by (simp add: LngLatBounds_extend_def ArgLngLatBounds c Let_def)
  qed
qed

text \<open>The theorem at bounds from \<open>(0, 0)\<close> to \<open>(2, 2)\<close>, extended by the point \<open>(5, -3)\<close>.\<close>

theorem extend_keeps_lat_order_witness:
  "LngLatBounds_extend [\<lparr>lng = Fin 0, lat = Fin 0\<rparr>, \<lparr>lng = Fin 2, lat = Fin 2\<rparr>, \<lparr>lng = Fin 5, lat = Fin (- 3)\<rparr>]
      \<lparr>u_sw = Some 0, u_ne = Some 1\<rparr> (ArgLngLat 2)
    = (None, \<lparr>u_sw = Some 0, u_ne = Some 1\<rparr>,
       [\<lparr>lng = Fin 0, lat = Fin (- 3)\<rparr>, \<lparr>lng = Fin 5, lat = Fin 2\<rparr>, \<lparr>lng = Fin 5, lat = Fin (- 3)\<rparr>])
   \<and> lat_ordered [\<lparr>lng = Fin 0, lat = Fin (- 3)\<rparr>, \<lparr>lng = Fin 5, lat = Fin 2\<rparr>, \<lparr>lng = Fin 5, lat = Fin (- 3)\<rparr>]
        \<lparr>u_sw = Some 0, u_ne = Some 1\<rparr>"
proof -
  have e: "LngLatBounds_extend [\<lparr>lng = Fin 0, lat = Fin 0\<rparr>, \<lparr>lng = Fin 2, lat = Fin 2\<rparr>, \<lparr>lng = Fin 5, lat = Fin (- 3)\<rparr>]
      \<lparr>u_sw = Some 0, u_ne = Some 1\<rparr> (ArgLngLat 2)
    = (None, \<lparr>u_sw = Some 0, u_ne = Some 1\<rparr>,
       [\<lparr>lng = Fin 0, lat = Fin (- 3)\<rparr>, \<lparr>lng = Fin 5, lat = Fin 2\<rparr>, \<lparr>lng = Fin 5, lat = Fin (- 3)\<rparr>])"
    by (simp add: LngLatBounds_extend_def extend_minmax_def Let_def)
  show ?thesis
    using extend_keeps_lat_order [of "[\<lparr>lng = Fin 0, lat = Fin 0\<rparr>, \<lparr>lng = Fin 2, lat = Fin 2\<rparr>, \<lparr>lng = Fin 5, lat = Fin (- 3)\<rparr>]"
        "\<lparr>u_sw = Some 0, u_ne = Some 1\<rparr>" "ArgLngLat 2"]
    unfolding e
    by (simp add: heap_ok_def LngLat_invariant_iff bounds_allocated_def lat_ordered_def)
qed

text \<open>
  C2 as stated fails: the constructor assigns the two corners as they come, so bounds
  built from the corners \<open>(0, 10)\<close> and \<open>(0, -10)\<close> have both corners set and
  \<open>southwest.lat > northeast.lat\<close>.
\<close>

theorem constructor_unordered:
  "u_sw (LngLatBounds_constructor (Some 0) (Some 1)) = Some 0
   \<and> u_ne (LngLatBounds_constructor (Some 0) (Some 1)) = Some 1
   \<and> heap_ok [\<lparr>lng = Fin 0, lat = Fin 10\<rparr>, \<lparr>lng = Fin 0, lat = Fin (- 10)\<rparr>]
   \<and> \<not> lat_ordered [\<lparr>lng = Fin 0, lat = Fin 10\<rparr>, \<lparr>lng = Fin 0, lat = Fin (- 10)\<rparr>]
         (LngLatBounds_constructor (Some 0) (Some 1))"
  by (simp add: LngLatBounds_constructor_def setNorthEast_def setSouthWest_def lat_ordered_def
      heap_ok_def LngLat_invariant_iff)

section \<open>The copying methods of Point\<close>

lemma set_y_set_x: "set_y (set_x st r a) r b = st[r := (st ! r)\<lparr>x := a, y := b\<rparr>]"
  by (cases "r < length st") (simp_all add: set_x_def set_y_def list_update_beyond not_less)

lemma set_x_set_y: "set_x (set_y st r b) r a = st[r := (st ! r)\<lparr>y := b, x := a\<rparr>]"
  by (cases "r < length st") (simp_all add: set_x_def set_y_def list_update_beyond not_less)

lemma update_self: "s = st[r := v] \<Longrightarrow> s = st[r := s ! r]"
  by (cases "r < length st") (simp_all add: list_update_beyond not_less)

lemma clone_eq: "clone st this = (length st, st @ [\<lparr>x = x (st ! this), y = y (st ! this)\<rparr>])"
  by (simp add: clone_def new_Point_def)

lemmas inplace_defs = Point__add_def Point__sub_def Point__mult_def Point__div_def
  Point__multByPoint_def Point__divByPoint_def Point__unit_def Point__perp_def Point__rotate_def
  Point__rotateAround_def Point__round_def Point__matMult_def

lemmas copy_defs = Point_add_def Point_sub_def Point_mult_def Point_div_def
  Point_multByPoint_def Point_divByPoint_def Point_unit_def Point_perp_def Point_rotate_def
  Point_rotateAround_def Point_round_def Point_matMult_def

lemma inplace_writes_receiver_only:
  "snd (Point__add st r p) = st[r := snd (Point__add st r p) ! r]"
  "snd (Point__sub st r p) = st[r := snd (Point__sub st r p) ! r]"
  "snd (Point__multByPoint st r p) = st[r := snd (Point__multByPoint st r p) ! r]"
  "snd (Point__divByPoint st r p) = st[r := snd (Point__divByPoint st r p) ! r]"
  "snd (Point__mult st r k) = st[r := snd (Point__mult st r k) ! r]"
  "snd (Point__div st r k) = st[r := snd (Point__div st r k) ! r]"
  "snd (Point__rotate M st r a) = st[r := snd (Point__rotate M st r a) ! r]"
  "snd (Point__rotateAround M st r a p) = st[r := snd (Point__rotateAround M st r a p) ! r]"
  "snd (Point__matMult st r m) = st[r := snd (Point__matMult st r m) ! r]"
  "snd (Point__unit st r) = st[r := snd (Point__unit st r) ! r]"
  "snd (Point__perp st r) = st[r := snd (Point__perp st r) ! r]"
  "snd (Point__round st r) = st[r := snd (Point__round st r) ! r]"
  unfolding inplace_defs Let_def snd_conv set_y_set_x set_x_set_y
  by (rule update_self, rule refl)+

lemma inplace_returns_receiver:
  "fst (Point__add st r p) = r" "fst (Point__sub st r p) = r"
  "fst (Point__multByPoint st r p) = r" "fst (Point__divByPoint st r p) = r"
  "fst (Point__mult st r k) = r" "fst (Point__div st r k) = r"
  "fst (Point__rotate M st r a) = r" "fst (Point__rotateAround M st r a p) = r"
  "fst (Point__matMult st r m) = r" "fst (Point__unit st r) = r"
  "fst (Point__perp st r) = r" "fst (Point__round st r) = r"
  by (simp_all add: inplace_defs Let_def)

lemma copy_keeps_receiver:
  assumes "this < length st"
  shows "snd (Point_add st this p) ! this = st ! this"
    "snd (Point_sub st this p) ! this = st ! this"
    "snd (Point_multByPoint st this p) ! this = st ! this"
    "snd (Point_divByPoint st this p) ! this = st ! this"
    "snd (Point_mult st this k) ! this = st ! this"
    "snd (Point_div st this k) ! this = st ! this"
    "snd (Point_rotate M st this a) ! this = st ! this"
    "snd (Point_rotateAround M st this a p) ! this = st ! this"
    "snd (Point_matMult st this m) ! this = st ! this"
    "snd (Point_unit st this) ! this = st ! this"
    "snd (Point_perp st this) ! this = st ! this"
    "snd (Point_round st this) ! this = st ! this"
  unfolding copy_defs clone_eq prod.case
  by (subst inplace_writes_receiver_only, simp add: nth_append assms)+

text \<open>
  C7. The copying methods \<open>add\<close>, \<open>sub\<close>, \<open>multByPoint\<close>, \<open>divByPoint\<close>, \<open>mult\<close>,
  \<open>div\<close>, \<open>rotate\<close>, \<open>rotateAround\<close>, \<open>matMult\<close>, \<open>unit\<close>, \<open>perp\<close> and \<open>round\<close>
  leave the receiver as it was, whatever the arguments are (the receiver itself
  included). The methods whose names start with an underscore write the receiver and
  nothing else: the store after the call is the store before it with a new value for the
  receiver.
\<close>

text \<open>
  C7. The copying methods \<open>add\<close>, \<open>sub\<close>, \<open>multByPoint\<close>, \<open>divByPoint\<close>, \<open>mult\<close>,
  \<open>div\<close>, \<open>rotate\<close>, \<open>rotateAround\<close>, \<open>matMult\<close>, \<open>unit\<close>, \<open>perp\<close> and \<open>round\<close>
  leave the receiver as it was, whatever the arguments are (the receiver itself
  included). The methods whose names start with an underscore write the receiver and
  nothing else: the store after the call is the store before it with a new value for the
  receiver.
\<close>

theorem copies_keep_receiver:
  assumes "this < length st"
  shows "snd (Point_add st this p) ! this = st ! this
    \<and> snd (Point_sub st this p) ! this = st ! this
    \<and> snd (Point_multByPoint st this p) ! this = st ! this
    \<and> snd (Point_divByPoint st this p) ! this = st ! this
    \<and> snd (Point_mult st this k) ! this = st ! this
    \<and> snd (Point_div st this k) ! this = st ! this
    \<and> snd (Point_rotate M st this a) ! this = st ! this
    \<and> snd (Point_rotateAround M st this a p) ! this = st ! this
    \<and> snd (Point_matMult st this m) ! this = st ! this
    \<and> snd (Point_unit st this) ! this = st ! this
    \<and> snd (Point_perp st this) ! this = st ! this
    \<and> snd (Point_round st this) ! this = st ! this
    \<and> snd (Point__add st this p) = st[this := snd (Point__add st this p) ! this]
    \<and> snd (Point__sub st this p) = st[this := snd (Point__sub st this p) ! this]
    \<and> snd (Point__multByPoint st this p) = st[this := snd (Point__multByPoint st this p) ! this]
    \<and> snd (Point__divByPoint st this p) = st[this := snd (Point__divByPoint st this p) ! this]
    \<and> snd (Point__mult st this k) = st[this := snd (Point__mult st this k) ! this]
    \<and> snd (Point__div st this k) = st[this := snd (Point__div st this k) ! this]
    \<and> snd (Point__rotate M st this a) = st[this := snd (Point__rotate M st this a) ! this]
    \<and> snd (Point__rotateAround M st this a p) = st[this := snd (Point__rotateAround M st this a p) ! this]
    \<and> snd (Point__matMult st this m) = st[this := snd (Point__matMult st this m) ! this]
    \<and> snd (Point__unit st this) = st[this := snd (Point__unit st this) ! this]
    \<and> snd (Point__perp st this) = st[this := snd (Point__perp st this) ! this]
    \<and> snd (Point__round st this) = st[this := snd (Point__round st this) ! this]"
  using copy_keeps_receiver [OF assms] inplace_writes_receiver_only [where st = st and r = this]
  by (intro conjI) blast+

text \<open>
  The theorem at the points \<open>(1, 2)\<close> and \<open>(3, 4)\<close>: \<open>add\<close> leaves the receiver at
  \<open>(1, 2)\<close> and returns a new point \<open>(4, 6)\<close>, and \<open>_add\<close> makes the receiver \<open>(4, 6)\<close>.
\<close>

text \<open>
  The theorem at the points \<open>(1, 2)\<close> and \<open>(3, 4)\<close>: \<open>add\<close> leaves the receiver at
  \<open>(1, 2)\<close> and returns a new point \<open>(4, 6)\<close>, and \<open>_add\<close> makes the receiver \<open>(4, 6)\<close>.
\<close>

theorem copies_keep_receiver_witness:
  "snd (Point_add [\<lparr>x = Fin 1, y = Fin 2\<rparr>, \<lparr>x = Fin 3, y = Fin 4\<rparr>] 0 1) ! 0 = \<lparr>x = Fin 1, y = Fin 2\<rparr>
   \<and> snd (Point_add [\<lparr>x = Fin 1, y = Fin 2\<rparr>, \<lparr>x = Fin 3, y = Fin 4\<rparr>] 0 1) ! 2 = \<lparr>x = Fin 4, y = Fin 6\<rparr>
   \<and> snd (Point__add [\<lparr>x = Fin 1, y = Fin 2\<rparr>, \<lparr>x = Fin 3, y = Fin 4\<rparr>] 0 1) ! 0 = \<lparr>x = Fin 4, y = Fin 6\<rparr>"
proof -
  have "snd (Point_add [\<lparr>x = Fin 1, y = Fin 2\<rparr>, \<lparr>x = Fin 3, y = Fin 4\<rparr>] 0 1) ! 0
      = [\<lparr>x = Fin 1, y = Fin 2\<rparr>, \<lparr>x = Fin 3, y = Fin 4\<rparr>] ! 0"
    using copies_keep_receiver [of 0 "[\<lparr>x = Fin 1, y = Fin 2\<rparr>, \<lparr>x = Fin 3, y = Fin 4\<rparr>]" 1]
    by simp
  then show ?thesis
    by (simp add: Point_add_def Point__add_def clone_def new_Point_def set_x_def set_y_def Let_def
        overflow_small)
qed

section \<open>Rotating a point there and back\<close>

lemma exact_host: "host_sin exact_Math t = sin t" "host_cos exact_Math t = cos t"
  by (simp_all add: host_sin_def host_cos_def exact_Math_def)

lemma scaled_by_unit:
  fixes u v :: real
  assumes "\<bar>u\<bar> \<le> 1"
  shows "\<bar>u * v\<bar> \<le> \<bar>v\<bar>"
proof -
  have "\<bar>u * v\<bar> = \<bar>u\<bar> * \<bar>v\<bar>" by (rule abs_mult)
  also have "\<dots> \<le> 1 * \<bar>v\<bar>" using assms by (intro mult_right_mono) simp_all
  finally show ?thesis by simp
qed

lemma rotation_bounds:
  fixes a b c s :: real
  assumes "\<bar>c\<bar> \<le> 1" and "\<bar>s\<bar> \<le> 1"
  shows "\<bar>c * a - s * b\<bar> \<le> \<bar>a\<bar> + \<bar>b\<bar>" and "\<bar>s * a + c * b\<bar> \<le> \<bar>a\<bar> + \<bar>b\<bar>"
proof -
  have p: "\<bar>c * a\<bar> \<le> \<bar>a\<bar>" "\<bar>s * b\<bar> \<le> \<bar>b\<bar>" "\<bar>s * a\<bar> \<le> \<bar>a\<bar>" "\<bar>c * b\<bar> \<le> \<bar>b\<bar>"
    using assms by (simp_all add: scaled_by_unit)
  show "\<bar>c * a - s * b\<bar> \<le> \<bar>a\<bar> + \<bar>b\<bar>"
    by (rule order_trans [OF abs_triangle_ineq4 add_mono [OF p(1) p(2)]])
  show "\<bar>s * a + c * b\<bar> \<le> \<bar>a\<bar> + \<bar>b\<bar>"
    by (rule order_trans [OF abs_triangle_ineq add_mono [OF p(3) p(4)]])
qed

lemma rotation_in_range:
  fixes a b c s :: real
  assumes "\<bar>a\<bar> + \<bar>b\<bar> < overflow_threshold" and "\<bar>c\<bar> \<le> 1" and "\<bar>s\<bar> \<le> 1"
  shows "js_sub (js_mul (Fin c) (Fin a)) (js_mul (Fin s) (Fin b)) = Fin (c * a - s * b)"
    and "js_add (js_mul (Fin s) (Fin a)) (js_mul (Fin c) (Fin b)) = Fin (s * a + c * b)"
proof -
  have n: "0 \<le> \<bar>a\<bar>" "0 \<le> \<bar>b\<bar>"
    by simp_all
  have p: "\<bar>c * a\<bar> \<le> \<bar>a\<bar>" "\<bar>s * b\<bar> \<le> \<bar>b\<bar>" "\<bar>s * a\<bar> \<le> \<bar>a\<bar>" "\<bar>c * b\<bar> \<le> \<bar>b\<bar>"
    using assms(2,3) by (simp_all add: scaled_by_unit)
  have o: "overflow (c * a) = Fin (c * a)" "overflow (s * b) = Fin (s * b)"
      "overflow (s * a) = Fin (s * a)" "overflow (c * b) = Fin (c * b)"
    by (rule overflow_abs, rule le_less_trans [OF _ assms(1)], use p n in linarith)+
  have q: "overflow (c * a - s * b) = Fin (c * a - s * b)"
    by (rule overflow_abs, rule le_less_trans [OF rotation_bounds(1) assms(1)]) (rule assms)+
  have q': "overflow (s * a + c * b) = Fin (s * a + c * b)"
    by (rule overflow_abs, rule le_less_trans [OF rotation_bounds(2) assms(1)]) (rule assms)+
  show "js_sub (js_mul (Fin c) (Fin a)) (js_mul (Fin s) (Fin b)) = Fin (c * a - s * b)"
    by (simp add: js_sub_def o q)
  show "js_add (js_mul (Fin s) (Fin a)) (js_mul (Fin c) (Fin b)) = Fin (s * a + c * b)"
    by (simp add: o q')
qed

lemma Point_rotate_exact:
  assumes "st ! this = \<lparr>x = Fin a, y = Fin b\<rparr>" and "\<bar>a\<bar> + \<bar>b\<bar> < overflow_threshold"
  shows "Point_rotate exact_Math st this (Fin t) =
     (length st, st @ [\<lparr>x = Fin (cos t * a - sin t * b), y = Fin (sin t * a + cos t * b)\<rparr>])"
  using rotation_in_range [OF assms(2), of "cos t" "sin t"]
  by (simp add: Point_rotate_def clone_eq Point__rotate_def Let_def set_y_set_x exact_host assms(1)
      del: js_mul.simps js_add.simps)

lemma rotate_back:
  fixes a b t :: real
  shows "cos t * (cos t * a - sin t * b) + sin t * (sin t * a + cos t * b) = a"
    and "cos t * (sin t * a + cos t * b) - sin t * (cos t * a - sin t * b) = b"
proof -
  have one: "cos t * cos t + sin t * sin t = 1"
    by (rule sin_cos_squared_add3)
  have "cos t * (cos t * a - sin t * b) + sin t * (sin t * a + cos t * b)
      = a * (cos t * cos t + sin t * sin t)"
    by (simp only: algebra_simps)
  also have "\<dots> = a"
    unfolding one by simp
  finally show "cos t * (cos t * a - sin t * b) + sin t * (sin t * a + cos t * b) = a" .
  have "cos t * (sin t * a + cos t * b) - sin t * (cos t * a - sin t * b)
      = b * (cos t * cos t + sin t * sin t)"
    by (simp only: algebra_simps)
  also have "\<dots> = b"
    unfolding one by simp
  finally show "cos t * (sin t * a + cos t * b) - sin t * (cos t * a - sin t * b) = b" .
qed

lemma rotated_in_range:
  fixes a b t :: real
  shows "\<bar>cos t * a - sin t * b\<bar> + \<bar>sin t * a + cos t * b\<bar> \<le> 2 * (\<bar>a\<bar> + \<bar>b\<bar>)"
proof -
  have "\<bar>cos t * a - sin t * b\<bar> + \<bar>sin t * a + cos t * b\<bar> \<le> (\<bar>a\<bar> + \<bar>b\<bar>) + (\<bar>a\<bar> + \<bar>b\<bar>)"
    by (intro add_mono rotation_bounds) simp_all
  then show ?thesis by (simp only: mult_2)
qed

text \<open>
  C8, as amended. In exact arithmetic, that is with the exact sine and cosine, without
  rounding, and for finite coordinates small enough that no intermediate result
  overflows, \<open>p.rotate(a).rotate(-a)\<close> is a point with the coordinates of \<open>p\<close>, for
  every finite angle \<open>a\<close>.
\<close>

theorem rotate_round_trip:
  assumes "st ! this = \<lparr>x = Fin a, y = Fin b\<rparr>" and "2 * (\<bar>a\<bar> + \<bar>b\<bar>) < overflow_threshold"
  shows "(case Point_rotate exact_Math st this (Fin t) of
            (r1, st1) \<Rightarrow>
              (case Point_rotate exact_Math st1 r1 (js_neg (Fin t)) of
                 (r2, st2) \<Rightarrow> st2 ! r2 = \<lparr>x = Fin a, y = Fin b\<rparr>))"
proof -
  let ?q = "\<lparr>x = Fin (cos t * a - sin t * b), y = Fin (sin t * a + cos t * b)\<rparr>"
  have "0 \<le> \<bar>a\<bar> + \<bar>b\<bar>"
    by simp
  then have "\<bar>a\<bar> + \<bar>b\<bar> \<le> 2 * (\<bar>a\<bar> + \<bar>b\<bar>)"
    by (simp only: mult_2 le_add_same_cancel1)
  then have r: "\<bar>a\<bar> + \<bar>b\<bar> < overflow_threshold"
    using assms(2) by (rule le_less_trans)
  have 1: "Point_rotate exact_Math st this (Fin t) = (length st, st @ [?q])"
    using assms(1) r by (rule Point_rotate_exact)
  have q: "(st @ [?q]) ! length st = ?q"
    by simp
  have r2: "\<bar>cos t * a - sin t * b\<bar> + \<bar>sin t * a + cos t * b\<bar> < overflow_threshold"
    using rotated_in_range [of t a b] assms(2) by (rule le_less_trans)
  have 2: "Point_rotate exact_Math (st @ [?q]) (length st) (Fin (- t)) =
      (length (st @ [?q]), (st @ [?q]) @ [\<lparr>x = Fin (cos (- t) * (cos t * a - sin t * b) - sin (- t) * (sin t * a + cos t * b)),
           y = Fin (sin (- t) * (cos t * a - sin t * b) + cos (- t) * (sin t * a + cos t * b))\<rparr>])"
    using q r2 by (rule Point_rotate_exact)
  have undo: "cos (- t) * (cos t * a - sin t * b) - sin (- t) * (sin t * a + cos t * b) = a"
      "sin (- t) * (cos t * a - sin t * b) + cos (- t) * (sin t * a + cos t * b) = b"
    using rotate_back [of t a b] by simp_all
  show ?thesis
    unfolding 1 prod.case js_neg.simps 2 undo by (simp add: nth_append)
qed

text \<open>The theorem at the point \<open>(3, 4)\<close> and the angle of one radian.\<close>

theorem rotate_round_trip_witness:
  "(case Point_rotate exact_Math [\<lparr>x = Fin 3, y = Fin 4\<rparr>] 0 (Fin 1) of
      (r1, st1) \<Rightarrow>
        (case Point_rotate exact_Math st1 r1 (js_neg (Fin 1)) of
           (r2, st2) \<Rightarrow> st2 ! r2 = \<lparr>x = Fin 3, y = Fin 4\<rparr>))"
proof -
  have "2 * (\<bar>3::real\<bar> + \<bar>4\<bar>) < overflow_threshold"
    using threshold_180 by simp
  then show ?thesis
    using rotate_round_trip [of "[\<lparr>x = Fin 3, y = Fin 4\<rparr>]" 0 3 4 1]
    by simp
qed

lemma rounded_angles:
  "host_sin rounded_Math (5 / 2) = 5390557850356401 / 9007199254740992"
  "host_sin rounded_Math (- (5 / 2)) = - (5390557850356401 / 9007199254740992)"
  "host_cos rounded_Math (5 / 2) = - (7216060176894845 / 9007199254740992)"
  "host_cos rounded_Math (- (5 / 2)) = - (7216060176894845 / 9007199254740992)"
  by (simp_all add: host_sin_def host_cos_def rounded_Math_def)

lemma rotate_there:
  "Point_rotate rounded_Math [\<lparr>x = Fin 100000000, y = Fin (- 30000000)\<rparr>] 0 (Fin (5 / 2)) =
     (1, [\<lparr>x = Fin 100000000, y = Fin (- 30000000)\<rparr>,
          \<lparr>x = Fin (- (7216060176894845 / 9007199254740992) * 100000000
                     - 5390557850356401 / 9007199254740992 * (- 30000000)),
            y = Fin (5390557850356401 / 9007199254740992 * 100000000
                     + (- (7216060176894845 / 9007199254740992)) * (- 30000000))\<rparr>])"
  by (simp add: Point_rotate_def clone_eq Point__rotate_def Let_def set_y_set_x rounded_angles
      js_sub_def overflow_small)

text \<open>
  C8 as stated fails in both its halves. A point with an infinite coordinate does not
  come back: \<open>Point(Infinity, 0)\<close> rotated by the angle 0 is \<open>(Infinity, NaN)\<close>, since
  \<open>0 * Infinity\<close> is \<open>NaN\<close>, and rotated back it is \<open>(NaN, NaN)\<close>. And the tolerance
  does not hold for a point far from the origin: at the host that rounds, where the
  squares of the sine and the cosine of 2.5 do not add up to 1, \<open>Point(1e8, -3e7)\<close>
  rotated by 2.5 and then by -2.5 has an \<open>x\<close> more than \<open>1e-9\<close> above \<open>1e8\<close>, with
  every sum and product exact.
\<close>

theorem rotate_round_trip_fails:
  "snd (Point_rotate exact_Math (snd (Point_rotate exact_Math [\<lparr>x = PInf, y = Fin 0\<rparr>] 0 (Fin 0)))
           (fst (Point_rotate exact_Math [\<lparr>x = PInf, y = Fin 0\<rparr>] 0 (Fin 0))) (js_neg (Fin 0))) ! 2
       = \<lparr>x = NaN, y = NaN\<rparr>
   \<and> js_gt (js_sub
        (x (snd (Point_rotate rounded_Math
                   (snd (Point_rotate rounded_Math [\<lparr>x = Fin 100000000, y = Fin (- 30000000)\<rparr>] 0 (Fin (5 / 2))))
                   (fst (Point_rotate rounded_Math [\<lparr>x = Fin 100000000, y = Fin (- 30000000)\<rparr>] 0 (Fin (5 / 2))))
                   (js_neg (Fin (5 / 2)))) ! 2))
        (Fin 100000000))
      (Fin (1 / 1000000000))"
proof (intro conjI)
  show "snd (Point_rotate exact_Math (snd (Point_rotate exact_Math [\<lparr>x = PInf, y = Fin 0\<rparr>] 0 (Fin 0)))
           (fst (Point_rotate exact_Math [\<lparr>x = PInf, y = Fin 0\<rparr>] 0 (Fin 0))) (js_neg (Fin 0))) ! 2
       = \<lparr>x = NaN, y = NaN\<rparr>"
    by (simp add: Point_rotate_def clone_eq Point__rotate_def Let_def set_y_set_x exact_host
      js_sub_def signed_infinity_def overflow_small)
next
  show "js_gt (js_sub
        (x (snd (Point_rotate rounded_Math
                   (snd (Point_rotate rounded_Math [\<lparr>x = Fin 100000000, y = Fin (- 30000000)\<rparr>] 0 (Fin (5 / 2))))
                   (fst (Point_rotate rounded_Math [\<lparr>x = Fin 100000000, y = Fin (- 30000000)\<rparr>] 0 (Fin (5 / 2))))
                   (js_neg (Fin (5 / 2)))) ! 2))
        (Fin 100000000))
      (Fin (1 / 1000000000))"
    unfolding rotate_there
    by (simp add: Point_rotate_def clone_eq Point__rotate_def Let_def set_y_set_x rounded_angles
      js_sub_def js_gt_def overflow_small)
qed

end
